theory Spec2Isabelle
  imports Complex_Main "HOL-Library.AList" "HOL-Library.Char_ord" "HOL-Library.List_Lexorder"
begin

section \<open>Python values shared by the modules\<close>

text \<open>
  Exceptions the modelled code can raise. All of them derive from Python's
  \<open>Exception\<close> class; \<open>OtherException\<close> stands for any further such
  exception raised by a collaborator (its message is carried along).
\<close>

datatype py_error =
    KeyError
  | IndexError
  | ValueError
  | OverflowError
  | QueueFull
  | OtherException string

text \<open>
  \<open>str.lower()\<close> on the ASCII range: the letters \<open>A\<close> to \<open>Z\<close> (codes 65 to 90)
  are moved to \<open>a\<close> to \<open>z\<close>, every other character is kept.
\<close>

definition lower_char :: "char \<Rightarrow> char" where
  "lower_char c =
     (let n = (of_char c :: nat)
      in if 65 \<le> n \<and> n \<le> 90 then char_of (n + 32) else c)"

definition lower :: "string \<Rightarrow> string" where
  "lower s = map lower_char s"

section \<open>Vote sessions (core/vote\_system.py)\<close>

text \<open>
  A Python \<open>dict\<close> keeps its keys in insertion order and assigning to an
  existing key keeps the key's position: it is modelled as an association
  list, read with \<^const>\<open>map_of\<close> and written with \<^const>\<open>AList.update\<close>.
  Vote counts are Python integers, hence \<^typ>\<open>int\<close>.
\<close>

record VoteSession =
  commands :: "(string \<times> int) list"
  voters :: "(string \<times> string) list"
  started_at :: real
  duration :: int
  active :: bool

text \<open>
  \<open>VoteSession.add_vote\<close>. The method mutates the session in place, so the
  model returns the session as it is left behind together with the returned
  value; \<open>self.commands[old]\<close> and \<open>self.commands[command] += 1\<close> raise
  \<open>KeyError\<close> on a missing key, after the earlier assignments have already
  taken effect.
\<close>

definition add_vote_tail ::
  "string \<Rightarrow> string \<Rightarrow> VoteSession \<Rightarrow> (py_error + bool) \<times> VoteSession" where
  \<comment> \<open>lines 37 to 39: count the vote and remember the voter's choice\<close>
  "add_vote_tail user_id command s =
     (case map_of (commands s) command of
        None \<Rightarrow> (Inl KeyError, s)
      | Some n \<Rightarrow>
          (Inr True,
           s\<lparr>commands := AList.update command (n + 1) (commands s),
              voters := AList.update user_id command (voters s)\<rparr>))"

definition add_vote ::
  "string \<Rightarrow> string \<Rightarrow> VoteSession \<Rightarrow> (py_error + bool) \<times> VoteSession" where
  "add_vote user_id command0 s =
     (if \<not> active s then (Inr False, s)
      else
        let command = lower command0;
            s1 = (if command \<notin> fst ` set (commands s)
                  then s\<lparr>commands := AList.update command 0 (commands s)\<rparr>
                  else s)
        in
          case map_of (voters s1) user_id of
            Some old \<Rightarrow>
              if old = command then (Inr False, s1)
              else (case map_of (commands s1) old of
                      None \<Rightarrow> (Inl KeyError, s1)
                    | Some n \<Rightarrow>
                        add_vote_tail user_id command
                          (s1\<lparr>commands := AList.update old (max 0 (n - 1)) (commands s1)\<rparr>))
          | None \<Rightarrow> add_vote_tail user_id command s1)"

text \<open>\<open>VoteSession.total_votes\<close>: \<open>sum(self.commands.values())\<close>.\<close>

definition total_votes :: "VoteSession \<Rightarrow> int" where
  "total_votes s = sum_list (map snd (commands s))"

text \<open>
  The session object \<open>VoteManager.start_vote\<close> constructs (lines 75 to 79):
  one vote for the initiating command, held by the initiating voter. The
  creation time is the clock reading \<open>now\<close>.
\<close>

definition new_session :: "string \<Rightarrow> string \<Rightarrow> int \<Rightarrow> real \<Rightarrow> VoteSession" where
  "new_session initial_command initiator_id dur now =
     \<lparr> commands = [(initial_command, 1)],
       voters = [(initiator_id, initial_command)],
       started_at = now,
       duration = dur,
       active = True \<rparr>"

text \<open>
  Everything that can happen to a session object after its creation: a call of
  \<open>add_vote\<close> (from \<open>start_vote\<close> or \<open>cast_vote\<close>), or its timer marking it
  inactive (\<open>_run_vote\<close>, line 95).
\<close>

datatype session_op = Vote string string | Close

fun apply_session_op :: "session_op \<Rightarrow> VoteSession \<Rightarrow> VoteSession" where
  "apply_session_op (Vote user_id command) s = snd (add_vote user_id command s)"
| "apply_session_op Close s = s\<lparr>active := False\<rparr>"

definition run_session :: "VoteSession \<Rightarrow> session_op list \<Rightarrow> VoteSession" where
  "run_session s ops = fold apply_session_op ops s"

text \<open>The count a session shows for a command; a command not listed has no votes.\<close>

definition vote_count :: "VoteSession \<Rightarrow> string \<Rightarrow> int" where
  "vote_count s c = (case map_of (commands s) c of None \<Rightarrow> 0 | Some n \<Rightarrow> n)"

text \<open>The number of voters whose current choice is \<open>c\<close>.\<close>

definition choosers :: "VoteSession \<Rightarrow> string \<Rightarrow> nat" where
  "choosers s c = length (filter (\<lambda>v. snd v = c) (voters s))"

text \<open>
  The invariant behind the vote bookkeeping: both dictionaries have distinct
  keys, the count of every command is the number of voters holding that choice
  (so every held choice is listed), and the counts add up to the number of
  voters.
\<close>

definition session_inv :: "VoteSession \<Rightarrow> bool" where
  "session_inv s \<longleftrightarrow>
     distinct (map fst (commands s)) \<and>
     distinct (map fst (voters s)) \<and>
     (\<forall>c. vote_count s c = int (choosers s c)) \<and>
     total_votes s = int (length (voters s))"

section \<open>Admission control (core/rate\_limiter.py)\<close>

text \<open>
  Clock readings and cooldown lengths are Python floats; they are modelled as
  real numbers, and \<open>time.time()\<close> is the argument \<open>now\<close> of each operation.
  \<open>_user_last\<close> is a \<open>defaultdict(float)\<close>: reading a missing key with
  \<open>self._user_last[user_id]\<close> stores the default \<open>0.0\<close> under that key and
  returns it. The other two tables are plain dictionaries.
\<close>

record RateLimiter =
  user_cooldown :: real
  global_cooldown :: real
  user_last :: "(string \<times> real) list"
  global_last :: real
  command_cooldowns :: "(string \<times> real) list"
  command_intervals :: "(string \<times> real) list"

definition new_rate_limiter :: "real \<Rightarrow> real \<Rightarrow> RateLimiter" where
  "new_rate_limiter user_cd global_cd =
     \<lparr> user_cooldown = user_cd, global_cooldown = global_cd, user_last = [],
       global_last = 0, command_cooldowns = [], command_intervals = [] \<rparr>"

definition set_command_cooldown :: "string \<Rightarrow> real \<Rightarrow> RateLimiter \<Rightarrow> RateLimiter" where
  "set_command_cooldown command interval rl =
     rl\<lparr>command_intervals := AList.update command interval (command_intervals rl)\<rparr>"

text \<open>
  The reason string of \<open>check\<close> is an f-string around the remaining wait. The
  model keeps which of the three messages it is and the wait that is
  formatted into it (\<open>{wait:.1f}\<close>, or \<open>{wait:.0f}\<close> for a command); \<open>NoReason\<close>
  is the empty string.
\<close>

datatype reason =
    NoReason
  | ServerBusy real
  | Cooldown real
  | CommandCooldown string real

fun remaining_wait :: "reason \<Rightarrow> real" where
  "remaining_wait NoReason = 0"
| "remaining_wait (ServerBusy w) = w"
| "remaining_wait (Cooldown w) = w"
| "remaining_wait (CommandCooldown c w) = w"

text \<open>\<open>defaultdict.__getitem__\<close> for \<open>_user_last\<close>: the value and the table afterwards.\<close>

definition user_last_getitem ::
  "string \<Rightarrow> (string \<times> real) list \<Rightarrow> real \<times> (string \<times> real) list" where
  "user_last_getitem user_id tbl =
     (case map_of tbl user_id of
        Some t \<Rightarrow> (t, tbl)
      | None \<Rightarrow> (0, AList.update user_id 0 tbl))"

text \<open>\<open>dict.get(key, 0)\<close>.\<close>

definition get_or_zero :: "(string \<times> real) list \<Rightarrow> string \<Rightarrow> real" where
  "get_or_zero tbl k = (case map_of tbl k of Some t \<Rightarrow> t | None \<Rightarrow> 0)"

text \<open>
  \<open>RateLimiter.check\<close>, returning the pair it returns and the limiter as the
  call leaves it. In the per-command scope \<open>command in self._command_intervals\<close>
  has been tested before \<open>self._command_intervals[command]\<close> is read, so that
  read cannot fail.
\<close>

definition check ::
  "real \<Rightarrow> string \<Rightarrow> string \<Rightarrow> RateLimiter \<Rightarrow> (bool \<times> reason) \<times> RateLimiter" where
  "check now user_id command rl =
     (let elapsed_global = now - global_last rl in
      if elapsed_global < global_cooldown rl
      then ((False, ServerBusy (global_cooldown rl - elapsed_global)), rl)
      else
        let (last, tbl) = user_last_getitem user_id (user_last rl);
            rl1 = rl\<lparr>user_last := tbl\<rparr>;
            elapsed_user = now - last
        in
          if elapsed_user < user_cooldown rl1
          then ((False, Cooldown (user_cooldown rl1 - elapsed_user)), rl1)
          else
            (case (if command \<noteq> [] then map_of (command_intervals rl1) command else None) of
               Some interval \<Rightarrow>
                 let elapsed_cmd = now - get_or_zero (command_cooldowns rl1) command in
                 if elapsed_cmd < interval
                 then ((False, CommandCooldown command (interval - elapsed_cmd)), rl1)
                 else ((True, NoReason), rl1)
             | None \<Rightarrow> ((True, NoReason), rl1)))"

text \<open>\<open>RateLimiter.record\<close> (named \<open>record_use\<close>: \<open>record\<close> is a keyword).\<close>

definition record_use :: "real \<Rightarrow> string \<Rightarrow> string \<Rightarrow> RateLimiter \<Rightarrow> RateLimiter" where
  "record_use now user_id command rl =
     (let rl1 = rl\<lparr>user_last := AList.update user_id now (user_last rl),
                   global_last := now\<rparr>
      in if command \<noteq> []
         then rl1\<lparr>command_cooldowns := AList.update command now (command_cooldowns rl1)\<rparr>
         else rl1)"

section \<open>Execution queue (core/rate\_limiter.py)\<close>

text \<open>
  \<open>ExecutionQueue\<close> wraps \<open>asyncio.Queue(maxsize=max_size)\<close>. Such a queue is
  full when \<open>maxsize > 0\<close> and it holds at least \<open>maxsize\<close> items; with
  \<open>maxsize <= 0\<close> it is never full. \<open>put_nowait\<close> raises \<open>QueueFull\<close> on a full
  queue and otherwise appends the item and counts one more unfinished task;
  \<open>task_done\<close> raises \<open>ValueError\<close> when no task is unfinished.
\<close>

record 'a ExecutionQueue =
  maxsize :: int
  queue_items :: "'a list"
  unfinished_tasks :: int
  dropped :: int

definition new_queue :: "int \<Rightarrow> 'a ExecutionQueue" where
  "new_queue max_size =
     \<lparr> maxsize = max_size, queue_items = [], unfinished_tasks = 0, dropped = 0 \<rparr>"

definition full :: "'a ExecutionQueue \<Rightarrow> bool" where
  "full q \<longleftrightarrow> 0 < maxsize q \<and> maxsize q \<le> int (length (queue_items q))"

definition put_nowait :: "'a \<Rightarrow> 'a ExecutionQueue \<Rightarrow> py_error + 'a ExecutionQueue" where
  "put_nowait item q =
     (if full q then Inl QueueFull
      else Inr (q\<lparr>queue_items := queue_items q @ [item],
                  unfinished_tasks := unfinished_tasks q + 1\<rparr>))"

text \<open>\<open>ExecutionQueue.put\<close>: any exception of \<open>put_nowait\<close> counts a dropped item.\<close>

definition put :: "'a \<Rightarrow> 'a ExecutionQueue \<Rightarrow> bool \<times> 'a ExecutionQueue" where
  "put item q =
     (case put_nowait item q of
        Inr q' \<Rightarrow> (True, q')
      | Inl e \<Rightarrow> (False, q\<lparr>dropped := dropped q + 1\<rparr>))"

text \<open>
  \<open>ExecutionQueue.get\<close> hands out the oldest item; on an empty queue the caller
  is suspended, which is the result \<open>None\<close>.
\<close>

definition get :: "'a ExecutionQueue \<Rightarrow> ('a \<times> 'a ExecutionQueue) option" where
  "get q =
     (case queue_items q of
        [] \<Rightarrow> None
      | item # rest \<Rightarrow> Some (item, q\<lparr>queue_items := rest\<rparr>))"

definition task_done :: "'a ExecutionQueue \<Rightarrow> py_error + 'a ExecutionQueue" where
  "task_done q =
     (if unfinished_tasks q \<le> 0 then Inl ValueError
      else Inr (q\<lparr>unfinished_tasks := unfinished_tasks q - 1\<rparr>))"

definition queue_size :: "'a ExecutionQueue \<Rightarrow> int" where
  \<comment> \<open>the property \<open>size\<close>\<close>
  "queue_size q = int (length (queue_items q))"

text \<open>Submitting a list of items one after the other: the answers, in order, and the queue.\<close>

fun put_all :: "'a list \<Rightarrow> 'a ExecutionQueue \<Rightarrow> bool list \<times> 'a ExecutionQueue" where
  "put_all [] q = ([], q)"
| "put_all (item # rest) q =
     (let (ok, q1) = put item q; (oks, q2) = put_all rest q1 in (ok # oks, q2))"

text \<open>Taking items out \<open>n\<close> times, stopping early where \<open>get\<close> would wait.\<close>

fun get_n :: "nat \<Rightarrow> 'a ExecutionQueue \<Rightarrow> 'a list \<times> 'a ExecutionQueue" where
  "get_n 0 q = ([], q)"
| "get_n (Suc n) q =
     (case get q of
        None \<Rightarrow> ([], q)
      | Some (item, q1) \<Rightarrow> (let (rest, q2) = get_n n q1 in (item # rest, q2)))"

section \<open>Message intake (api/youtube\_chat.py)\<close>

record ChatMessage =
  message_id :: string
  author_id :: string
  author_name :: string
  author_display :: string
  msg_text :: string
  timestamp :: real
  is_moderator :: bool
  is_owner :: bool
  is_member :: bool


text \<open>\<open>xs[-n:]\<close> for a positive \<open>n\<close>: the last \<open>n\<close> elements, all of them if there are fewer.\<close>

definition last_n :: "nat \<Rightarrow> 'a list \<Rightarrow> 'a list" where
  "last_n n xs = drop (length xs - n) xs"

definition prune_seen :: "(string set \<Rightarrow> string list) \<Rightarrow> string set \<Rightarrow> string set" where
  "prune_seen order seen_ids =
     (if card seen_ids > 10000 then set (last_n 5000 (order seen_ids)) else seen_ids)"


text \<open>A text message with the given id, for examples.\<close>

definition chat_message :: "string \<Rightarrow> string \<Rightarrow> string \<Rightarrow> ChatMessage" where
  "chat_message mid author body =
     \<lparr> message_id = mid, author_id = author, author_name = author,
       author_display = author, msg_text = body, timestamp = 0,
       is_moderator = False, is_owner = False, is_member = False \<rparr>"




section \<open>Commands (commands/parser.py)\<close>

datatype CommandTier = CLASSIC | MAJOR | ADMIN_TIER

datatype Permission = VIEWER | MEMBER | MOD | ADMIN

text \<open>\<open>Permission.value\<close>.\<close>

fun permission_value :: "Permission \<Rightarrow> int" where
  "permission_value VIEWER = 0"
| "permission_value MEMBER = 1"
| "permission_value MOD = 2"
| "permission_value ADMIN = 3"

record ParsedCommand =
  name :: string
  args :: "string list"
  raw :: string
  tier :: CommandTier
  required_permission :: Permission

text \<open>
  \<open>CommandDef\<close>; its fields carry the prefix \<open>def\<close> where \<open>ParsedCommand\<close> has
  a field of the same name.
\<close>

record CommandDef =
  def_name :: string
  def_tier :: CommandTier
  min_args :: int
  max_args :: int
  description :: string
  def_required_permission :: Permission
  aliases :: "string list"

definition command_def ::
  "string \<Rightarrow> CommandTier \<Rightarrow> int \<Rightarrow> int \<Rightarrow> string \<Rightarrow> Permission \<Rightarrow> CommandDef" where
  \<comment> \<open>the constructor call \<open>CommandDef(name, tier, min, max, description, permission)\<close>\<close>
  "command_def n t lo hi d p =
     \<lparr> def_name = n, def_tier = t, min_args = lo, max_args = hi, description = d,
       def_required_permission = p, aliases = [] \<rparr>"

definition COMMAND_DEFS :: "CommandDef list" where
  "COMMAND_DEFS =
    [ command_def ''startvm'' ADMIN_TIER 0 0 ''Start the VM'' ADMIN,
      command_def ''fullscreen'' CLASSIC 0 0 ''Toggle fullscreen'' VIEWER,
      command_def ''move'' CLASSIC 1 3 ''!move dx dy | !move left/right/up/down [steps]'' VIEWER,
      command_def ''abs'' CLASSIC 2 2 ''!abs x y - Move mouse to absolute position'' VIEWER,
      command_def ''drag'' CLASSIC 2 3 ''!drag dx dy [button]'' VIEWER,
      command_def ''click'' CLASSIC 0 1 ''!click [button] - left/right/middle'' VIEWER,
      command_def ''rclick'' CLASSIC 0 0 ''Right click'' VIEWER,
      command_def ''scroll'' CLASSIC 1 1 ''!scroll delta'' VIEWER,
      command_def ''type'' CLASSIC 1 99 ''!type text'' VIEWER,
      command_def ''send'' CLASSIC 1 99 ''!send text (type + Enter)'' VIEWER,
      command_def ''key'' CLASSIC 1 2 ''!key keyname [duration]'' VIEWER,
      command_def ''combo'' CLASSIC 1 1 ''!combo ctrl+c'' VIEWER,
      command_def ''keydown'' CLASSIC 1 1 ''!keydown key'' VIEWER,
      command_def ''keyup'' CLASSIC 1 1 ''!keyup key'' VIEWER,
      command_def ''enter'' CLASSIC 0 0 ''Press Enter'' VIEWER,
      command_def ''wait'' CLASSIC 1 1 ''!wait seconds (max 10)'' VIEWER,
      command_def ''stats'' CLASSIC 0 0 ''Your stats'' VIEWER,
      command_def ''leaderboard'' CLASSIC 0 0 ''Top players'' VIEWER,
      command_def ''uptime'' CLASSIC 0 0 ''Stream uptime'' VIEWER,
      command_def ''help'' CLASSIC 0 1 ''List commands'' VIEWER,
      command_def ''vote'' CLASSIC 1 1 ''!vote command - cast vote'' VIEWER,
      command_def ''shutdown'' MAJOR 0 0 ''Graceful ACPI shutdown (vote)'' VIEWER,
      command_def ''forceshutdown'' MAJOR 0 0 ''Hard power off + restart (vote)'' VIEWER,
      command_def ''reset'' ADMIN_TIER 0 0 ''Restart VM'' ADMIN,
      command_def ''revert'' ADMIN_TIER 0 0 ''Restore snapshot'' ADMIN,
      command_def ''screenshot'' ADMIN_TIER 0 0 ''Take screenshot'' MOD,
      command_def ''ban'' ADMIN_TIER 1 1 ''Ban user from commands'' MOD,
      command_def ''unban'' ADMIN_TIER 1 1 ''Unban user'' MOD ]"

text \<open>The loop that fills \<open>_CMD_MAP\<close>: each definition under its name and under each alias.\<close>

definition register_def ::
  "CommandDef \<Rightarrow> (string \<times> CommandDef) list \<Rightarrow> (string \<times> CommandDef) list" where
  "register_def d m =
     fold (\<lambda>alias m'. AList.update alias d m') (aliases d) (AList.update (def_name d) d m)"

definition CMD_MAP :: "(string \<times> CommandDef) list" where
  "CMD_MAP = fold register_def COMMAND_DEFS []"

text \<open>
  Whitespace for \<open>str.strip()\<close> and \<open>str.split()\<close>, on the ASCII range: tab, line
  feed, vertical tab, form feed, carriage return, the four separators 28 to 31,
  and the space.
\<close>

definition is_space :: "char \<Rightarrow> bool" where
  "is_space c = (let n = (of_char c :: nat) in (9 \<le> n \<and> n \<le> 13) \<or> (28 \<le> n \<and> n \<le> 32))"

definition strip :: "string \<Rightarrow> string" where
  "strip s = rev (dropWhile is_space (rev (dropWhile is_space s)))"

fun split_ws_from :: "string \<Rightarrow> string \<Rightarrow> string list" where
  "split_ws_from cur [] = (if cur = [] then [] else [cur])"
| "split_ws_from cur (c # cs) =
     (if is_space c
      then (if cur = [] then split_ws_from [] cs else cur # split_ws_from [] cs)
      else split_ws_from (cur @ [c]) cs)"

text \<open>\<open>str.split()\<close> without arguments.\<close>

definition split_ws :: "string \<Rightarrow> string list" where
  "split_ws s = split_ws_from [] s"

text \<open>\<open>" ".join(parts)\<close>.\<close>

fun join_spaces :: "string list \<Rightarrow> string" where
  "join_spaces [] = []"
| "join_spaces [p] = p"
| "join_spaces (p # ps) = p @ '' '' @ join_spaces ps"

text \<open>
  \<open>parse_command\<close>. \<open>shlex.split\<close> belongs to the standard library and is the
  parameter \<open>shlex_split\<close>; it answers with the tokens or raises. A
  \<open>ValueError\<close> falls back to \<open>str.split()\<close>; any other exception would leave
  \<open>parse_command\<close>. The result \<open>Inr None\<close> is Python's \<open>None\<close>.
\<close>

definition parse_command ::
  "(string \<Rightarrow> py_error + string list) \<Rightarrow> string \<Rightarrow> py_error + ParsedCommand option" where
  "parse_command shlex_split text0 =
     (let text1 = strip text0 in
      if take 1 text1 \<noteq> ''!'' then Inr None
      else
        case (case shlex_split (drop 1 text1) of
                Inr ps \<Rightarrow> Inr ps
              | Inl e \<Rightarrow> if e = ValueError then Inr (split_ws (drop 1 text1)) else Inl e) of
          Inl e \<Rightarrow> Inl e
        | Inr parts \<Rightarrow>
            (case parts of
               [] \<Rightarrow> Inr None
             | first # rest \<Rightarrow>
                 let name1 = lower first in
                 (case map_of CMD_MAP name1 of
                    None \<Rightarrow> Inr None
                  | Some cmd_def \<Rightarrow>
                      let args1 = (if (name1 = ''type'' \<or> name1 = ''send'') \<and> rest \<noteq> []
                                   then [join_spaces rest] else rest)
                      in if int (length args1) < min_args cmd_def then Inr None
                         else Inr (Some \<lparr> name = name1, args = args1, raw = text1,
                                            tier = def_tier cmd_def,
                                            required_permission =
                                              def_required_permission cmd_def \<rparr>))))"

section \<open>Command execution (commands/executor.py)\<close>

subsection \<open>Numbers and text of the Python side\<close>

text \<open>
  A Python float: a real number (rounding is not modelled), an infinity, or
  not-a-number. Comparisons with not-a-number are false. \<open>min(a, b)\<close> gives
  \<open>a\<close> unless \<open>b < a\<close>, and \<open>max(a, b)\<close> gives \<open>a\<close> unless \<open>b > a\<close>.
\<close>

datatype pyfloat = Finite real | PosInf | NegInf | NaN

fun float_less :: "pyfloat \<Rightarrow> pyfloat \<Rightarrow> bool" where
  "float_less NaN b = False"
| "float_less a NaN = False"
| "float_less PosInf b = False"
| "float_less a NegInf = False"
| "float_less NegInf b = True"
| "float_less a PosInf = True"
| "float_less (Finite x) (Finite y) = (x < y)"

definition float_min :: "pyfloat \<Rightarrow> pyfloat \<Rightarrow> pyfloat" where
  "float_min a b = (if float_less b a then b else a)"

definition float_max :: "pyfloat \<Rightarrow> pyfloat \<Rightarrow> pyfloat" where
  "float_max a b = (if float_less a b then b else a)"

text \<open>
  \<open>int(x)\<close> for a float \<open>x\<close>: truncation towards zero; an infinity raises
  \<open>OverflowError\<close> and not-a-number raises \<open>ValueError\<close>.
\<close>

definition int_of_float :: "pyfloat \<Rightarrow> py_error + int" where
  "int_of_float x =
     (case x of
        Finite r \<Rightarrow> Inr (if 0 \<le> r then \<lfloor>r\<rfloor> else \<lceil>r\<rceil>)
      | PosInf \<Rightarrow> Inl OverflowError
      | NegInf \<Rightarrow> Inl OverflowError
      | NaN \<Rightarrow> Inl ValueError)"

text \<open>
  The conversions of the standard library the executor calls on argument
  strings: \<open>float(s)\<close>, \<open>int(s)\<close> and \<open>s.isdigit()\<close>.
\<close>

record PyLib =
  py_float :: "string \<Rightarrow> py_error + pyfloat"
  py_int :: "string \<Rightarrow> py_error + int"
  py_isdigit :: "string \<Rightarrow> bool"

text \<open>\<open>int(float(s))\<close>.\<close>

definition int_float :: "PyLib \<Rightarrow> string \<Rightarrow> py_error + int" where
  "int_float lib s = (case py_float lib s of Inl e \<Rightarrow> Inl e | Inr x \<Rightarrow> int_of_float x)"

text \<open>\<open>args[i]\<close> for \<open>i \<ge> 0\<close>.\<close>

definition arg_at :: "string list \<Rightarrow> nat \<Rightarrow> py_error + string" where
  "arg_at xs i = (if i < length xs then Inr (xs ! i) else Inl IndexError)"

text \<open>\<open>s[:n]\<close>: a negative \<open>n\<close> counts from the end.\<close>

definition slice_to :: "int \<Rightarrow> string \<Rightarrow> string" where
  "slice_to n s = (if 0 \<le> n then take (nat n) s else take (length s - nat (- n)) s)"

definition upper_char :: "char \<Rightarrow> char" where
  "upper_char c =
     (let n = (of_char c :: nat)
      in if 97 \<le> n \<and> n \<le> 122 then char_of (n - 32) else c)"

text \<open>\<open>str.capitalize()\<close>, on the ASCII range.\<close>

definition capitalize :: "string \<Rightarrow> string" where
  "capitalize s = (case s of [] \<Rightarrow> [] | c # cs \<Rightarrow> upper_char c # lower cs)"

text \<open>\<open>s.lstrip("-")\<close>.\<close>

definition lstrip_minus :: "string \<Rightarrow> string" where
  "lstrip_minus s = dropWhile (\<lambda>c. c = CHR ''-'') s"

text \<open>
  A message is an f-string or a plain string: its literal pieces and the values
  formatted into it, in order. An emoji of the source text is given by its
  name. The empty list is the empty string.
\<close>

datatype part =
    L string          \<comment> \<open>literal text\<close>
  | Emoji string      \<comment> \<open>an emoji, by name\<close>
  | S string          \<comment> \<open>a string value\<close>
  | I int             \<comment> \<open>an integer value\<close>
  | F pyfloat         \<comment> \<open>a float value\<close>
  | Reason reason     \<comment> \<open>the reason string of \<open>RateLimiter.check\<close>\<close>
  | Counts "(string \<times> int) list"
      \<comment> \<open>vote counts, each as \<open>!command: count\<close>, joined by a bar\<close>

type_synonym message = "part list"

subsection \<open>The actuator\<close>

text \<open>
  What the executor asks of \<open>VMController\<close>, one constructor per method, and
  \<open>asyncio.sleep\<close>. The actuator is an outside party: \<open>vm_answer\<close> gives, for a
  call, the boolean it returns or the exception it raises, and
  \<open>vm_screenshot\<close> the path \<open>screenshot()\<close> returns (\<open>None\<close> for no path).
\<close>

datatype action =
    Start_vm bool
  | Toggle_fullscreen
  | Mouse_move int int
  | Mouse_abs int int
  | Mouse_drag int int string
  | Mouse_click_v2 string
  | Mouse_scroll int
  | Type_text string
  | Send_text string
  | Key_press string pyfloat
  | Key_down string
  | Key_up string
  | Key_combo string
  | Reset_vm
  | Restore_snapshot string
  | Screenshot
  | Shutdown_vm bool
  | Is_running
  | Sleep_int int
  | Sleep_float pyfloat

record VM =
  vm_answer :: "action \<Rightarrow> py_error + bool"
  vm_screenshot :: "py_error + string option"

text \<open>
  A handler gives the calls it has issued, in order, and either its
  \<open>CommandResult\<close> or the exception that ended it.
\<close>

record CommandResult =
  success :: bool
  message :: message
  public :: bool

type_synonym 'a run = "action list \<times> (py_error + 'a)"

definition ok :: "message \<Rightarrow> bool \<Rightarrow> CommandResult" where
  "ok msg pub = \<lparr> success = True, message = msg, public = pub \<rparr>"

definition fail :: "message \<Rightarrow> CommandResult" where
  "fail msg = \<lparr> success = False, message = msg, public = True \<rparr>"

definition returns :: "'a \<Rightarrow> 'a run" where
  \<comment> \<open>\<open>return x\<close>\<close>
  "returns x = ([], Inr x)"

definition raises :: "py_error \<Rightarrow> 'a run" where
  "raises e = ([], Inl e)"

definition await :: "VM \<Rightarrow> action \<Rightarrow> (bool \<Rightarrow> 'a run) \<Rightarrow> 'a run" where
  \<comment> \<open>\<open>x = await self.vm.method(...)\<close> followed by the rest of the handler\<close>
  "await vm a rest =
     (case vm_answer vm a of
        Inl e \<Rightarrow> ([a], Inl e)
      | Inr b \<Rightarrow> (case rest b of (calls, r) \<Rightarrow> (a # calls, r)))"

definition sleep :: "action \<Rightarrow> 'a run \<Rightarrow> 'a run" where
  \<comment> \<open>\<open>await asyncio.sleep(...)\<close> followed by the rest\<close>
  "sleep a rest = (case rest of (calls, r) \<Rightarrow> (a # calls, r))"

text \<open>The fields of \<open>Config\<close> that executor and orchestrator read.\<close>

record Config =
  mouse_max_delta :: int
  mouse_abs_x_max :: int
  mouse_abs_y_max :: int
  type_max_length :: int
  max_wait_seconds :: int
  snapshot_name :: string
  admin_user_ids :: "string list"
  mod_user_ids :: "string list"
  points_per_command :: int
  points_per_vote_win :: int

definition DIRECTION_MAP :: "(string \<times> int \<times> int) list" where
  "DIRECTION_MAP =
     [(''left'', (-100, 0)), (''right'', (100, 0)), (''up'', (0, -100)), (''down'', (0, 100))]"

subsection \<open>The handlers\<close>

definition startvm_handler :: "VM \<Rightarrow> CommandResult run" where
  "startvm_handler vm =
     await vm (Start_vm True) (\<lambda>ok_flag.
       returns (if ok_flag then ok [Emoji ''check mark'', L '' VM started!''] True
             else fail [Emoji ''cross mark'', L '' VM failed to start'']))"

definition fullscreen_handler :: "VM \<Rightarrow> CommandResult run" where
  "fullscreen_handler vm =
     await vm Toggle_fullscreen (\<lambda>_.
       returns (ok [Emoji ''desktop'', L '' Fullscreen toggled''] False))"

definition move_clamped :: "VM \<Rightarrow> Config \<Rightarrow> int \<Rightarrow> int \<Rightarrow> CommandResult run" where
  \<comment> \<open>\<open>_move\<close> from the comment \<open># Clamp\<close> on\<close>
  "move_clamped vm config dx0 dy0 =
     (let max_d = mouse_max_delta config;
          dx = max (- max_d) (min dx0 max_d);
          dy = max (- max_d) (min dy0 max_d)
      in await vm (Mouse_move dx dy) (\<lambda>_.
           returns (ok [Emoji ''mouse'', L '' Moved ('', I dx, L '','', I dy, L '')''] False)))"

definition move_handler :: "PyLib \<Rightarrow> VM \<Rightarrow> Config \<Rightarrow> string list \<Rightarrow> CommandResult run" where
  "move_handler lib vm config args0 =
     (case args0 of
        [] \<Rightarrow> returns (fail [L ''Usage: !move dx dy | !move left/right/up/down''])
      | first # _ \<Rightarrow>
          (case map_of DIRECTION_MAP (lower first) of
             Some (dx, dy) \<Rightarrow>
               (case (if 1 < length args0 \<and> py_isdigit lib (lstrip_minus (args0 ! 1))
                      then py_int lib (args0 ! 1) else Inr 1) of
                  Inl e \<Rightarrow> raises e
                | Inr steps0 \<Rightarrow>
                    let steps = max 1 (min steps0 10)
                    in move_clamped vm config (dx * steps) (dy * steps))
           | None \<Rightarrow>
               if length args0 < 2 then returns (fail [L ''Usage: !move dx dy''])
               else
                 (case int_float lib (args0 ! 0) of
                    Inl e \<Rightarrow> if e = ValueError then returns (fail [L ''Invalid coordinates''])
                             else raises e
                  | Inr dx \<Rightarrow>
                      (case int_float lib (args0 ! 1) of
                         Inl e \<Rightarrow> if e = ValueError then returns (fail [L ''Invalid coordinates''])
                                  else raises e
                       | Inr dy \<Rightarrow> move_clamped vm config dx dy))))"

text \<open>
  The \<open>try\<close> block shared by \<open>_abs\<close> and \<open>_drag\<close>:
  \<open>int(float(args[0]))\<close>, then \<open>int(float(args[1]))\<close>.
\<close>

definition two_ints :: "PyLib \<Rightarrow> string list \<Rightarrow> py_error + int \<times> int" where
  "two_ints lib args0 =
     (case arg_at args0 0 of
        Inl e \<Rightarrow> Inl e
      | Inr a0 \<Rightarrow>
          (case int_float lib a0 of
             Inl e \<Rightarrow> Inl e
           | Inr x \<Rightarrow>
               (case arg_at args0 1 of
                  Inl e \<Rightarrow> Inl e
                | Inr a1 \<Rightarrow>
                    (case int_float lib a1 of
                       Inl e \<Rightarrow> Inl e
                     | Inr y \<Rightarrow> Inr (x, y)))))"

definition abs_handler :: "PyLib \<Rightarrow> VM \<Rightarrow> Config \<Rightarrow> string list \<Rightarrow> CommandResult run" where
  "abs_handler lib vm config args0 =
     (case two_ints lib args0 of
        Inl e \<Rightarrow> if e = ValueError \<or> e = IndexError then returns (fail [L ''Usage: !abs x y''])
                 else raises e
      | Inr (x0, y0) \<Rightarrow>
          let x = max 0 (min x0 (mouse_abs_x_max config));
              y = max 0 (min y0 (mouse_abs_y_max config))
          in await vm (Mouse_abs x y) (\<lambda>_.
               returns (ok [Emoji ''mouse'', L '' Moved to ('', I x, L '','', I y, L '')''] False)))"

definition pick_button :: "string \<Rightarrow> string" where
  \<comment> \<open>\<open>if button not in ("left", "right", "middle"): button = "left"\<close>\<close>
  "pick_button b = (if b = ''left'' \<or> b = ''right'' \<or> b = ''middle'' then b else ''left'')"

definition drag_handler :: "PyLib \<Rightarrow> VM \<Rightarrow> Config \<Rightarrow> string list \<Rightarrow> CommandResult run" where
  "drag_handler lib vm config args0 =
     (case two_ints lib args0 of
        Inl e \<Rightarrow> if e = ValueError \<or> e = IndexError
                 then returns (fail [L ''Usage: !drag dx dy [button]''])
                 else raises e
      | Inr (dx0, dy0) \<Rightarrow>
          let button = pick_button (if 2 < length args0 then lower (args0 ! 2) else ''left'');
              max_d = mouse_max_delta config;
              dx = max (- max_d) (min dx0 max_d);
              dy = max (- max_d) (min dy0 max_d)
          in await vm (Mouse_drag dx dy button) (\<lambda>_.
               returns (ok [Emoji ''mouse'', L '' Dragged ('', I dx, L '','', I dy, L '')''] False)))"

definition click_handler :: "VM \<Rightarrow> string list \<Rightarrow> CommandResult run" where
  "click_handler vm args0 =
     (let button = pick_button (case args0 of [] \<Rightarrow> ''left'' | a # _ \<Rightarrow> lower a)
      in await vm (Mouse_click_v2 button) (\<lambda>_.
           returns (ok [Emoji ''mouse'', L '' '', S (capitalize button), L '' click''] False)))"

definition rclick_handler :: "VM \<Rightarrow> CommandResult run" where
  "rclick_handler vm =
     await vm (Mouse_click_v2 ''right'') (\<lambda>_.
       returns (ok [Emoji ''mouse'', L '' Right click''] False))"

definition scroll_handler :: "PyLib \<Rightarrow> VM \<Rightarrow> string list \<Rightarrow> CommandResult run" where
  "scroll_handler lib vm args0 =
     (case (case arg_at args0 0 of Inl e \<Rightarrow> Inl e | Inr a0 \<Rightarrow> int_float lib a0) of
        Inl e \<Rightarrow> if e = ValueError \<or> e = IndexError
                 then returns (fail [L ''Usage: !scroll delta''])
                 else raises e
      | Inr delta0 \<Rightarrow>
          let delta = max (-10) (min delta0 10)
          in await vm (Mouse_scroll delta) (\<lambda>_.
               returns (ok [Emoji ''mouse'', L '' Scrolled '', I delta] False)))"

definition typed_preview :: "string \<Rightarrow> part list" where
  \<comment> \<open>\<open>{text[:30]}{'...' if len(text) > 30 else ''}\<close>\<close>
  "typed_preview t = [S (slice_to 30 t), S (if 30 < length t then ''...'' else '''')]"

definition type_handler :: "VM \<Rightarrow> Config \<Rightarrow> string list \<Rightarrow> CommandResult run" where
  "type_handler vm config args0 =
     (case args0 of
        [] \<Rightarrow> returns (fail [L ''Usage: !type text''])
      | a # _ \<Rightarrow>
          let t = slice_to (type_max_length config) a
          in await vm (Type_text t) (\<lambda>_.
               returns (ok ([Emoji ''keyboard'', L '' Typed: ''] @ typed_preview t) True)))"

definition send_handler :: "VM \<Rightarrow> Config \<Rightarrow> string list \<Rightarrow> CommandResult run" where
  "send_handler vm config args0 =
     (case args0 of
        [] \<Rightarrow> returns (fail [L ''Usage: !send text''])
      | a # _ \<Rightarrow>
          let t = slice_to (type_max_length config) a
          in await vm (Send_text t) (\<lambda>_.
               returns (ok ([Emoji ''keyboard'', L '' Sent: ''] @ typed_preview t) True)))"

definition key_handler :: "PyLib \<Rightarrow> VM \<Rightarrow> string list \<Rightarrow> CommandResult run" where
  "key_handler lib vm args0 =
     (case arg_at args0 0 of
        Inl e \<Rightarrow> raises e
      | Inr a0 \<Rightarrow>
          let key = lower a0 in
          (case (if 1 < length args0
                 then (case py_float lib (args0 ! 1) of
                         Inr x \<Rightarrow> Inr (float_max (Finite (5 / 100)) (float_min x (Finite 2)))
                       | Inl e \<Rightarrow> if e = ValueError then Inr (Finite (1 / 10)) else Inl e)
                 else Inr (Finite (1 / 10))) of
             Inl e \<Rightarrow> raises e
           | Inr dur \<Rightarrow>
               await vm (Key_press key dur) (\<lambda>ok_flag.
                 returns (if \<not> ok_flag then fail [L ''Unknown key: '', S key]
                       else ok [Emoji ''keyboard'', L '' Key: '', S key] False))))"

definition combo_handler :: "VM \<Rightarrow> string list \<Rightarrow> CommandResult run" where
  \<comment> \<open>\<open>len(combo.split("+"))\<close> is one more than the number of plus signs\<close>
  "combo_handler vm args0 =
     (case arg_at args0 0 of
        Inl e \<Rightarrow> raises e
      | Inr a0 \<Rightarrow>
          let combo = lower a0 in
          if 4 < length (filter (\<lambda>c. c = CHR ''+'') combo) + 1
          then returns (fail [L ''Too many keys in combo''])
          else await vm (Key_combo combo) (\<lambda>_.
                 returns (ok [Emoji ''keyboard'', L '' Combo: '', S combo] True)))"

definition keydown_handler :: "VM \<Rightarrow> string list \<Rightarrow> CommandResult run" where
  "keydown_handler vm args0 =
     (case arg_at args0 0 of
        Inl e \<Rightarrow> raises e
      | Inr a0 \<Rightarrow>
          let key = lower a0 in
          await vm (Key_down key) (\<lambda>ok_flag.
            returns (if ok_flag then ok [Emoji ''keyboard'', L '' KeyDown: '', S key] False
                  else fail [L ''Unknown key: '', S key])))"

definition keyup_handler :: "VM \<Rightarrow> string list \<Rightarrow> CommandResult run" where
  "keyup_handler vm args0 =
     (case arg_at args0 0 of
        Inl e \<Rightarrow> raises e
      | Inr a0 \<Rightarrow>
          let key = lower a0 in
          await vm (Key_up key) (\<lambda>ok_flag.
            returns (if ok_flag then ok [Emoji ''keyboard'', L '' KeyUp: '', S key] False
                  else fail [L ''Unknown key: '', S key])))"

definition enter_handler :: "VM \<Rightarrow> CommandResult run" where
  "enter_handler vm =
     await vm (Key_press ''enter'' (Finite (1 / 10))) (\<lambda>_.
       returns (ok [Emoji ''keyboard'', L '' Enter''] False))"

text \<open>
  \<open>_wait\<close>: \<open>max(0, min(secs, self.config.max_wait_seconds))\<close> mixes a float
  with two integers, and is one of the integers when it is not \<open>secs\<close>.
\<close>

definition wait_handler :: "PyLib \<Rightarrow> Config \<Rightarrow> string list \<Rightarrow> CommandResult run" where
  "wait_handler lib config args0 =
     (case (case arg_at args0 0 of Inl e \<Rightarrow> Inl e | Inr a0 \<Rightarrow> py_float lib a0) of
        Inl e \<Rightarrow> if e = ValueError \<or> e = IndexError
                 then returns (fail [L ''Usage: !wait seconds''])
                 else raises e
      | Inr secs \<Rightarrow>
          let cap = max_wait_seconds config in
          if float_less (Finite (real_of_int cap)) secs
          then \<comment> \<open>the minimum is the integer cap\<close>
            (let n = (if 0 < cap then cap else 0)
             in sleep (Sleep_int n)
                  (returns (ok [Emoji ''stopwatch'', L '' Waited '', I n, L ''s''] False)))
          else if float_less (Finite 0) secs
          then sleep (Sleep_float secs)
                 (returns (ok [Emoji ''stopwatch'', L '' Waited '', F secs, L ''s''] False))
          else sleep (Sleep_int 0)
                 (returns (ok [Emoji ''stopwatch'', L '' Waited '', I 0, L ''s''] False)))"

definition reset_handler :: "VM \<Rightarrow> CommandResult run" where
  "reset_handler vm =
     await vm Reset_vm (\<lambda>ok_flag.
       returns (if ok_flag then ok [Emoji ''arrows'', L '' VM reset!''] True
             else fail [Emoji ''cross mark'', L '' Reset failed'']))"

definition revert_handler :: "VM \<Rightarrow> Config \<Rightarrow> CommandResult run" where
  "revert_handler vm config =
     await vm (Restore_snapshot (snapshot_name config)) (\<lambda>ok_flag.
       if ok_flag
       then sleep (Sleep_int 3)
              (await vm (Start_vm True) (\<lambda>_.
                 returns (ok [Emoji ''rewind'', L '' Snapshot restored!''] True)))
       else returns (fail [Emoji ''cross mark'', L '' Revert failed'']))"

definition screenshot_handler :: "VM \<Rightarrow> CommandResult run" where
  "screenshot_handler vm =
     (case vm_screenshot vm of
        Inl e \<Rightarrow> ([Screenshot], Inl e)
      | Inr path \<Rightarrow>
          ([Screenshot],
           Inr (case path of
                  Some p \<Rightarrow> ok [Emoji ''camera'', L '' Screenshot saved: '', S p] True
                | None \<Rightarrow> fail [L ''Screenshot failed''])))"

definition execute_shutdown :: "VM \<Rightarrow> bool \<Rightarrow> CommandResult run" where
  "execute_shutdown vm force =
     await vm (Shutdown_vm force) (\<lambda>ok_flag.
       if ok_flag
       then sleep (Sleep_int (if force then 2 else 12))
              (await vm (Start_vm True) (\<lambda>_.
                 returns (ok [Emoji ''plug'', L '' VM shut down and restarted!''] True)))
       else returns (fail [Emoji ''cross mark'', L '' Shutdown failed'']))"

subsection \<open>\<open>CommandExecutor.execute\<close>\<close>

text \<open>The \<open>if\<close>/\<open>elif\<close> chain inside the \<open>try\<close> block.\<close>

definition dispatch :: "PyLib \<Rightarrow> VM \<Rightarrow> Config \<Rightarrow> ParsedCommand \<Rightarrow> CommandResult run" where
  "dispatch lib vm config cmd =
     (let n = name cmd; a = args cmd in
      if n = ''startvm'' then startvm_handler vm
      else if n = ''fullscreen'' then fullscreen_handler vm
      else if n = ''move'' then move_handler lib vm config a
      else if n = ''abs'' then abs_handler lib vm config a
      else if n = ''drag'' then drag_handler lib vm config a
      else if n = ''click'' then click_handler vm a
      else if n = ''rclick'' then rclick_handler vm
      else if n = ''scroll'' then scroll_handler lib vm a
      else if n = ''type'' then type_handler vm config a
      else if n = ''send'' then send_handler vm config a
      else if n = ''key'' then key_handler lib vm a
      else if n = ''combo'' then combo_handler vm a
      else if n = ''keydown'' then keydown_handler vm a
      else if n = ''keyup'' then keyup_handler vm a
      else if n = ''enter'' then enter_handler vm
      else if n = ''wait'' then wait_handler lib config a
      else if n = ''reset'' then reset_handler vm
      else if n = ''revert'' then revert_handler vm config
      else if n = ''screenshot'' then screenshot_handler vm
      else if n = ''shutdown'' then returns (fail [L ''shutdown requires a vote''])
      else if n = ''forceshutdown'' then returns (fail [L ''forceshutdown requires a vote''])
      else returns (fail [L ''Unknown command: '', S n]))"

text \<open>
  \<open>execute\<close>: the chain under \<open>try\<close>, with \<open>except Exception\<close> turning whatever
  was raised into the result \<open>Error executing !name\<close>. The type of the result
  still has room for an exception that leaves \<open>execute\<close>.
\<close>

definition execute :: "PyLib \<Rightarrow> VM \<Rightarrow> Config \<Rightarrow> ParsedCommand \<Rightarrow> string \<Rightarrow> CommandResult run" where
  "execute lib vm config cmd user_display =
     (case dispatch lib vm config cmd of
        (calls, Inr result) \<Rightarrow> (calls, Inr result)
      | (calls, Inl e) \<Rightarrow> (calls, Inr (fail [L ''Error executing !'', S (name cmd)])))"

section \<open>The vote manager (core/vote\_system.py)\<close>


text \<open>
  \<open>VoteSession.get_vote_counts\<close>: the entries sorted by falling count; the sort
  is stable, so entries with equal counts keep their order.
\<close>

definition get_vote_counts :: "VoteSession \<Rightarrow> (string \<times> int) list" where
  "get_vote_counts s = sort_key (\<lambda>entry. - snd entry) (commands s)"

text \<open>\<open>VoteSession.time_remaining\<close>, at clock reading \<open>now\<close> (the integer 0 read as a real).\<close>

definition time_remaining :: "real \<Rightarrow> VoteSession \<Rightarrow> real" where
  "time_remaining now s = max 0 (real_of_int (duration s) - (now - started_at s))"

text \<open>
  The manager holds a reference to its current session, and the task started
  for a session holds a reference to that same object. Session objects
  therefore live in a store, \<open>sessions\<close>, and are referred to by their index.

  asyncio runs one task at a time and switches tasks only where a task
  awaits. Each operation below is one such uninterrupted stretch of code.
  The lock \<open>_session_lock\<close> is only ever held across code without an \<open>await\<close>,
  so it is free whenever a stretch begins, and it does not appear in the state.

  A task \<open>_run_vote(session)\<close> is \<open>Sleeping\<close> until its timer fires. It then
  closes the session and calls the result callbacks in order. A callback is a
  coroutine: it either runs to its end without giving up control
  (\<open>Immediate\<close>), or it awaits something on the way (\<open>Suspending\<close>), as
  \<open>ArchChaosBot._on_vote_result\<close> does with \<open>asyncio.sleep(1)\<close>; the task is
  then \<open>Dispatching k\<close>, halted inside callback number \<open>k\<close>. After the last
  callback the task is \<open>Finished\<close>. An exception of a callback is caught and
  logged, and the loop goes on with the next one.
\<close>

datatype callback = Immediate | Suspending

datatype task_phase = Sleeping | Dispatching nat | Finished

record vote_result =
  winner :: "string option"
  counts :: "(string \<times> int) list"
  voter_ids :: "string list"

record VoteManager =
  vote_duration :: int
  sessions :: "VoteSession list"
  current_session :: "nat option"
  on_result_callbacks :: "callback list"
  tasks :: "(nat \<times> task_phase) list"
  results :: "(nat \<times> vote_result) list"

definition new_vote_manager :: "int \<Rightarrow> VoteManager" where
  "new_vote_manager dur =
     \<lparr> vote_duration = dur, sessions = [], current_session = None,
       on_result_callbacks = [], tasks = [], results = [] \<rparr>"

definition on_result :: "callback \<Rightarrow> VoteManager \<Rightarrow> VoteManager" where
  "on_result cb m = m\<lparr>on_result_callbacks := on_result_callbacks m @ [cb]\<rparr>"

text \<open>The session a reference points to.\<close>

definition session_at :: "VoteManager \<Rightarrow> nat \<Rightarrow> VoteSession option" where
  "session_at m r = (if r < length (sessions m) then Some (sessions m ! r) else None)"

text \<open>
  \<open>self._current_session and self._current_session.active\<close>: the reference of
  the current session if there is one and it is active.
\<close>

definition active_session :: "VoteManager \<Rightarrow> nat option" where
  "active_session m =
     (case current_session m of
        None \<Rightarrow> None
      | Some r \<Rightarrow>
          (case session_at m r of
             None \<Rightarrow> None
           | Some s \<Rightarrow> if active s then Some r else None))"

text \<open>\<open>add_vote\<close> on the session object behind a reference.\<close>

definition add_vote_at ::
  "nat \<Rightarrow> string \<Rightarrow> string \<Rightarrow> VoteManager \<Rightarrow> (py_error + bool) \<times> VoteManager" where
  "add_vote_at r user_id command m =
     (case add_vote user_id command (sessions m ! r) of
        (answer, s') \<Rightarrow> (answer, m\<lparr>sessions := (sessions m)[r := s']\<rparr>))"

text \<open>
  \<open>VoteManager.start_vote\<close>. The answer \<open>Some r\<close> is the new session, \<open>None\<close>
  says that the vote went into the session in progress.
\<close>

definition start_vote ::
  "string \<Rightarrow> string \<Rightarrow> real \<Rightarrow> VoteManager \<Rightarrow> (py_error + nat option) \<times> VoteManager" where
  "start_vote initial_command initiator_id now m =
     (case active_session m of
        Some r \<Rightarrow>
          (case add_vote_at r initiator_id initial_command m of
             (Inl e, m') \<Rightarrow> (Inl e, m')
           | (Inr _, m') \<Rightarrow> (Inr None, m'))
      | None \<Rightarrow>
          let r = length (sessions m);
              session = new_session initial_command initiator_id (vote_duration m) now
          in (Inr (Some r),
              m\<lparr>sessions := sessions m @ [session],
                 current_session := Some r,
                 tasks := tasks m @ [(r, Sleeping)]\<rparr>))"

definition cast_vote ::
  "string \<Rightarrow> string \<Rightarrow> VoteManager \<Rightarrow> (py_error + bool) \<times> VoteManager" where
  "cast_vote user_id command m =
     (case active_session m of
        None \<Rightarrow> (Inr False, m)
      | Some r \<Rightarrow> add_vote_at r user_id command m)"

text \<open>
  The loop over the callbacks, from callback number \<open>k\<close> on, up to the first
  one that gives up control.
\<close>

fun dispatch_from :: "callback list \<Rightarrow> nat \<Rightarrow> task_phase" where
  "dispatch_from [] k = Finished"
| "dispatch_from (Immediate # cbs) k = dispatch_from cbs (Suc k)"
| "dispatch_from (Suspending # cbs) k = Dispatching k"

definition set_phase :: "nat \<Rightarrow> task_phase \<Rightarrow> VoteManager \<Rightarrow> VoteManager" where
  "set_phase r ph m = m\<lparr>tasks := AList.update r ph (tasks m)\<rparr>"


text \<open>The callback in which the task for session \<open>r\<close> is halted comes to its end.\<close>

definition callback_returns :: "nat \<Rightarrow> VoteManager \<Rightarrow> VoteManager" where
  "callback_returns r m =
     (case map_of (tasks m) r of
        Some (Dispatching k) \<Rightarrow>
          set_phase r (dispatch_from (drop (Suc k) (on_result_callbacks m)) (Suc k)) m
      | _ \<Rightarrow> m)"

text \<open>
  \<open>VoteManager.get_vote_status\<close>: counts, time remaining and total of the
  active session.
\<close>

definition get_vote_status ::
  "real \<Rightarrow> VoteManager \<Rightarrow> ((string \<times> int) list \<times> real \<times> int) option" where
  "get_vote_status now m =
     (case active_session m of
        None \<Rightarrow> None
      | Some r \<Rightarrow>
          let s = sessions m ! r
          in Some (get_vote_counts s, time_remaining now s, total_votes s))"


section \<open>The orchestrator (core/bot.py)\<close>

text \<open>
  What the orchestrator does to its collaborators: the overlay, the user
  database, the announcements and the actuator. Announcements whose text is
  built by a formatter of its own (\<open>get_help_text\<close>, \<open>_format_stats\<close>,
  \<open>_format_leaderboard\<close>, the uptime line) are recorded by the formatter
  called and its argument.
\<close>

datatype bot_effect =
    Overlay_add_chat_message string string string
  | Overlay_set_active_command string string string
  | Overlay_clear_active_command
  | Users_get_or_create string string
  | Users_increment_commands string
  | Users_add_points string int
  | Users_increment_votes_cast string
  | Announce message
  | Announce_for string message
  | Announce_help "string option"
  | Announce_stats string
  | Announce_leaderboard
  | Announce_uptime real
  | Actuator action
  | Log_error py_error

type_synonym queue_item = "ParsedCommand \<times> string \<times> string"

record Bot =
  config :: Config
  config_vote_duration :: int
  start_time :: real
  rate_limiter :: RateLimiter
  vote_manager :: VoteManager
  queue :: "queue_item ExecutionQueue"
  banned :: "string set"

text \<open>
  A stretch of orchestrator code gives its effects, in order, and whether it
  ended normally or with an exception, together with the orchestrator
  afterwards.
\<close>

type_synonym bot_run = "(bot_effect list \<times> (py_error + unit)) \<times> Bot"

definition finish :: "bot_effect list \<Rightarrow> Bot \<Rightarrow> bot_run" where
  "finish effects self = ((effects, Inr ()), self)"

definition and_then :: "bot_effect list \<Rightarrow> bot_run \<Rightarrow> bot_run" where
  \<comment> \<open>effects that come before a further stretch\<close>
  "and_then effects r = (case r of ((later, outcome), self) \<Rightarrow> ((effects @ later, outcome), self))"

definition badge_of :: "ChatMessage \<Rightarrow> string" where
  "badge_of msg =
     (if is_owner msg then ''owner''
      else if is_moderator msg then ''mod''
      else if is_member msg then ''member''
      else '''')"

text \<open>Lines 135 to 141: the trust level of the author.\<close>

definition resolve_permission :: "Config \<Rightarrow> ChatMessage \<Rightarrow> Permission" where
  "resolve_permission cfg msg =
     (if author_id msg \<in> set (admin_user_ids cfg) \<or> is_owner msg then ADMIN
      else if author_id msg \<in> set (mod_user_ids cfg) \<or> is_moderator msg then MOD
      else if is_member msg then MEMBER
      else VIEWER)"

definition handle_major_command :: "real \<Rightarrow> ChatMessage \<Rightarrow> ParsedCommand \<Rightarrow> Bot \<Rightarrow> bot_run" where
  "handle_major_command now msg cmd self =
     (case start_vote (name cmd) (author_id msg) now (vote_manager self) of
        (Inl e, vm') \<Rightarrow> (([], Inl e), self\<lparr>vote_manager := vm'\<rparr>)
      | (Inr session, vm') \<Rightarrow>
          let self' = self\<lparr>vote_manager := vm'\<rparr> in
          and_then [Users_increment_votes_cast (author_id msg)]
            (case session of
               Some _ \<Rightarrow>
                 finish [Announce
                   [Emoji ''ballot box'',
                    L '' VOTE STARTED! Type !vote shutdown or !vote forceshutdown. You have '',
                    I (config_vote_duration self'), L ''s! Current: !'', S (name cmd),
                    L '' (1 vote)'']] self'
             | None \<Rightarrow>
                 (case get_vote_status now vm' of
                    Some (cs, remaining, votes_total) \<Rightarrow>
                      finish [Announce_for (author_display msg)
                        [L ''voted !'', S (name cmd), L ''. ['', Counts cs, L ''] - '',
                         F (Finite remaining), L ''s left'']] self'
                  | None \<Rightarrow> finish [] self')))"

text \<open>\<open>s.lstrip("!")\<close>.\<close>

definition lstrip_bang :: "string \<Rightarrow> string" where
  "lstrip_bang s = dropWhile (\<lambda>c. c = CHR ''!'') s"

definition handle_vote_cast :: "real \<Rightarrow> ChatMessage \<Rightarrow> ParsedCommand \<Rightarrow> Bot \<Rightarrow> bot_run" where
  "handle_vote_cast now msg cmd self =
     (case args cmd of
        [] \<Rightarrow> finish [Announce_for (author_display msg)
                        [L ''Usage: !vote shutdown | !vote forceshutdown'']] self
      | a # _ \<Rightarrow>
          let target = lstrip_bang (lower a) in
          if target \<noteq> ''shutdown'' \<and> target \<noteq> ''forceshutdown''
          then finish [Announce_for (author_display msg)
                         [L ''Vote options: shutdown, forceshutdown'']] self
          else
            (case cast_vote (author_id msg) target (vote_manager self) of
               (Inl e, vm') \<Rightarrow> (([], Inl e), self\<lparr>vote_manager := vm'\<rparr>)
             | (Inr voted, vm') \<Rightarrow>
                 let self' = self\<lparr>vote_manager := vm'\<rparr> in
                 if voted
                 then and_then [Users_increment_votes_cast (author_id msg)]
                        (case get_vote_status now vm' of
                           Some (cs, remaining, votes_total) \<Rightarrow>
                             finish [Announce_for (author_display msg)
                               [Emoji ''check mark'', L '' Voted !'', S target, L ''. ['',
                                Counts cs, L '']'']] self'
                         | None \<Rightarrow> finish [] self')
                 else finish [Announce_for (author_display msg)
                        [Emoji ''cross mark'',
                         L '' No active vote right now. Trigger !shutdown or !forceshutdown first.'']]
                        self'))"

text \<open>\<open>s.lstrip("@")\<close>.\<close>

definition lstrip_at :: "string \<Rightarrow> string" where
  "lstrip_at s = dropWhile (\<lambda>c. c = CHR ''@'') s"

definition handle_moderation :: "ChatMessage \<Rightarrow> ParsedCommand \<Rightarrow> Permission \<Rightarrow> Bot \<Rightarrow> bot_run" where
  "handle_moderation msg cmd perm self =
     (if permission_value perm < permission_value MOD then finish [] self
      else
        (case args cmd of
           [] \<Rightarrow> finish [] self
         | a # _ \<Rightarrow>
             let target_name = lstrip_at a in
             if name cmd = ''ban''
             then finish [Announce [Emoji ''no entry'', L '' '', S target_name,
                                    L '' has been banned from commands'']]
                    (self\<lparr>banned := insert target_name (banned self)\<rparr>)
             else if name cmd = ''unban''
             then finish [Announce [Emoji ''check mark'', L '' '', S target_name,
                                    L '' has been unbanned'']]
                    (self\<lparr>banned := banned self - {target_name}\<rparr>)
             else finish [] self))"

text \<open>The commands that are dropped without a notice when the rate limiter denies them.\<close>

definition silent_when_limited :: "string list" where
  "silent_when_limited =
     [''move'', ''click'', ''rclick'', ''type'', ''send'', ''key'', ''enter'', ''scroll'',
      ''abs'', ''drag'']"

text \<open>
  Lines 178 to 201 of \<open>_process_message\<close>: admission, then the vote for a
  command of the major tier, and for every other command the bookkeeping and
  \<open>self.queue.put\<close>.
\<close>

definition admit_and_route :: "real \<Rightarrow> ChatMessage \<Rightarrow> ParsedCommand \<Rightarrow> Bot \<Rightarrow> bot_run" where
  "admit_and_route now msg cmd self =
     (case check now (author_id msg) (name cmd) (rate_limiter self) of
        ((allowed, reason), rl') \<Rightarrow>
          let self1 = self\<lparr>rate_limiter := rl'\<rparr> in
          if \<not> allowed
          then (if tier cmd = CLASSIC \<and> name cmd \<in> set silent_when_limited
                then finish [] self1
                else finish [Announce_for (author_display msg)
                               [Emoji ''hourglass'', L '' '', Reason reason]] self1)
          else if tier cmd = MAJOR then handle_major_command now msg cmd self1
          else
            let self2 = self1\<lparr>rate_limiter :=
                              record_use now (author_id msg) (name cmd) (rate_limiter self1)\<rparr>;
                args_str = join_spaces (args cmd);
                bookkeeping = [Users_increment_commands (author_id msg),
                          Users_add_points (author_id msg) (points_per_command (config self2)),
                          Overlay_set_active_command (author_display msg) (name cmd) args_str]
            in (case put (cmd, author_display msg, author_id msg) (queue self2) of
                  (enqueued, q') \<Rightarrow>
                    let self3 = self2\<lparr>queue := q'\<rparr> in
                    if \<not> enqueued
                    then finish (bookkeeping @
                           [Announce_for (author_display msg)
                              [Emoji ''warning'', L '' Queue full, try again later''],
                            Overlay_clear_active_command]) self3
                    else finish bookkeeping self3))"

text \<open>
  \<open>_process_message\<close>, for the message \<open>msg\<close> at clock reading \<open>now\<close>. It has no
  access to the actuator: neither \<open>self.vm\<close> nor \<open>self.executor\<close> occurs in it
  or in the three handlers it calls.
\<close>

definition process_message ::
  "(string \<Rightarrow> py_error + string list) \<Rightarrow> real \<Rightarrow> ChatMessage \<Rightarrow> Bot \<Rightarrow> bot_run" where
  "process_message shlex_split now msg self =
     (let text1 = strip (msg_text msg) in
      and_then [Overlay_add_chat_message (author_display msg) text1 (badge_of msg)]
        (if take 1 text1 \<noteq> ''!'' then finish [] self
         else
           and_then [Users_get_or_create (author_id msg) (author_display msg)]
             (if author_id msg \<in> banned self then finish [] self
              else
                let perm = resolve_permission (config self) msg in
                (case parse_command shlex_split text1 of
                   Inl e \<Rightarrow> (([], Inl e), self)
                 | Inr None \<Rightarrow> finish [] self
                 | Inr (Some cmd) \<Rightarrow>
                     if permission_value perm < permission_value (required_permission cmd)
                     then finish [Announce_for (author_display msg)
                                    [Emoji ''cross mark'', L '' No permission for !'',
                                     S (name cmd)]] self
                     else if name cmd = ''help''
                     then finish [Announce_help (case args cmd of [] \<Rightarrow> None
                                                 | a # _ \<Rightarrow> Some a)] self
                     else if name cmd = ''stats''
                     then finish [Announce_stats (author_id msg)] self
                     else if name cmd = ''leaderboard''
                     then finish [Announce_leaderboard] self
                     else if name cmd = ''uptime''
                     then finish [Announce_uptime (now - start_time self)] self
                     else if name cmd = ''vote''
                     then handle_vote_cast now msg cmd self
                     else if name cmd = ''ban'' \<or> name cmd = ''unban''
                     then handle_moderation msg cmd perm self
                     else admit_and_route now msg cmd self))))"

text \<open>The commands the consumer runs without asking whether the VM is running.\<close>

definition runs_without_vm :: "string list" where
  "runs_without_vm =
     [''startvm'', ''stats'', ''leaderboard'', ''uptime'', ''help'', ''screenshot'']"

text \<open>
  One round of \<open>_execution_loop\<close> for an item that \<open>self.queue.get()\<close> has
  handed out: the body of the \<open>try\<close> block. \<open>vm\<close> is the actuator as it
  answers during this round.
\<close>

definition announce_result :: "string \<Rightarrow> CommandResult \<Rightarrow> bot_effect list" where
  "announce_result user_display result =
     (if message result \<noteq> [] \<and> public result
      then [Announce_for user_display (message result)]
      else if \<not> success result \<and> message result \<noteq> []
      then [Announce_for user_display (message result)]
      else [])"

definition execution_round :: "PyLib \<Rightarrow> VM \<Rightarrow> queue_item \<Rightarrow> Bot \<Rightarrow> bot_run" where
  "execution_round lib vm item self =
     (case item of (cmd, user_display, user_id) \<Rightarrow>
        (case task_done (queue self) of
           Inl e \<Rightarrow> (([], Inl e), self)
         | Inr q' \<Rightarrow>
             let self1 = self\<lparr>queue := q'\<rparr>;
                 run_it =
                   (case execute lib vm (config self1) cmd user_display of
                      (calls, Inl e) \<Rightarrow> ((map Actuator calls, Inl e), self1)
                    | (calls, Inr result) \<Rightarrow>
                        finish (map Actuator calls @ announce_result user_display result
                                @ [Overlay_clear_active_command]) self1)
             in if name cmd \<notin> set runs_without_vm
                then (case vm_answer vm Is_running of
                        Inl e \<Rightarrow> (([Actuator Is_running], Inl e), self1)
                      | Inr running \<Rightarrow>
                          and_then [Actuator Is_running]
                            (if \<not> running
                             then finish [Announce_for user_display
                                            [Emoji ''cross mark'',
                                             L '' VM is not running! Try !startvm''],
                                          Overlay_clear_active_command] self1
                             else run_it))
                else run_it))"

text \<open>
  The loop: \<open>except Exception\<close> logs whatever a round raises, and the loop
  takes the next item. It is run here while the actuator answers are given,
  one \<open>VM\<close> per round, and while the queue has items; on an empty queue the
  consumer waits.
\<close>

fun execution_loop :: "PyLib \<Rightarrow> VM list \<Rightarrow> Bot \<Rightarrow> bot_effect list \<times> Bot" where
  "execution_loop lib [] self = ([], self)"
| "execution_loop lib (vm # vms) self =
     (case get (queue self) of
        None \<Rightarrow> ([], self)
      | Some (item, q') \<Rightarrow>
          (case execution_round lib vm item (self\<lparr>queue := q'\<rparr>) of
             ((effects, outcome), self1) \<Rightarrow>
               (case execution_loop lib vms self1 of
                  (later, self2) \<Rightarrow>
                    (effects @ (case outcome of Inl e \<Rightarrow> [Log_error e] | Inr _ \<Rightarrow> []) @ later,
                     self2))))"

text \<open>What the executor may ask of the mouse, for a given configuration.\<close>

fun within_limits :: "Config \<Rightarrow> action \<Rightarrow> bool" where
  "within_limits cfg (Mouse_move dx dy) =
     (- mouse_max_delta cfg \<le> dx \<and> dx \<le> mouse_max_delta cfg \<and>
      - mouse_max_delta cfg \<le> dy \<and> dy \<le> mouse_max_delta cfg)"
| "within_limits cfg (Mouse_drag dx dy button) =
     (- mouse_max_delta cfg \<le> dx \<and> dx \<le> mouse_max_delta cfg \<and>
      - mouse_max_delta cfg \<le> dy \<and> dy \<le> mouse_max_delta cfg)"
| "within_limits cfg (Mouse_scroll delta) = (-10 \<le> delta \<and> delta \<le> 10)"
| "within_limits cfg _ = True"

text \<open>An orchestrator as \<open>ArchChaosBot.__init__\<close> sets it up, and sample surroundings.\<close>

definition default_config :: Config where
  "default_config =
     \<lparr> mouse_max_delta = 300, mouse_abs_x_max = 1920, mouse_abs_y_max = 1080,
       type_max_length = 100, max_wait_seconds = 10, snapshot_name = ''SafeBase'',
       admin_user_ids = [], mod_user_ids = [], points_per_command = 1,
       points_per_vote_win = 5 \<rparr>"

definition new_bot :: "Config \<Rightarrow> int \<Rightarrow> real \<Rightarrow> real \<Rightarrow> int \<Rightarrow> real \<Rightarrow> Bot" where
  "new_bot cfg vote_dur user_cd command_cd queue_max now =
     \<lparr> config = cfg,
       config_vote_duration = vote_dur,
       start_time = now,
       rate_limiter =
         set_command_cooldown ''uptime'' 10
           (set_command_cooldown ''stats'' 10
              (set_command_cooldown ''leaderboard'' 15 (new_rate_limiter user_cd command_cd))),
       vote_manager = on_result Suspending (new_vote_manager vote_dur),
       queue = new_queue queue_max,
       banned = {} \<rparr>"

definition default_bot :: Bot where
  "default_bot = new_bot default_config 20 3 (1 / 2) 50 0"

text \<open>
  Library answers for the argument strings of the examples, as Python gives
  them, and an actuator that answers every call with \<open>True\<close>.
\<close>

definition sample_lib :: PyLib where
  "sample_lib =
     \<lparr> py_float = (\<lambda>s. if s = ''500'' then Inr (Finite 500)
                        else if s = ''-7'' then Inr (Finite (-7))
                        else if s = ''inf'' then Inr PosInf
                        else Inl ValueError),
       py_int = (\<lambda>s. if s = ''3'' then Inr 3 else Inl ValueError),
       py_isdigit = (\<lambda>s. s = ''3'') \<rparr>"

definition willing_vm :: VM where
  "willing_vm = \<lparr> vm_answer = (\<lambda>a. Inr True), vm_screenshot = Inr None \<rparr>"

definition simple_split :: "string \<Rightarrow> py_error + string list" where
  \<comment> \<open>\<open>shlex.split\<close> on text without quotes or backslashes\<close>
  "simple_split s = Inr (split_ws s)"

definition owner_message :: "string \<Rightarrow> ChatMessage" where
  "owner_message body = (chat_message ''m1'' ''owner-id'' body)\<lparr>is_owner := True\<rparr>"
section \<open>Vote sessions: bookkeeping invariant\<close>

subsection \<open>Association lists\<close>

lemma sum_list_snd_update:
  "distinct (map fst al) \<Longrightarrow>
   sum_list (map snd (AList.update k v al)) =
     sum_list (map snd al) - (case map_of al k of None \<Rightarrow> 0 | Some n \<Rightarrow> n) + (v::int)"
  by (induction al) (auto simp: rev_image_eqI split: option.splits)

lemma length_alist_update:
  "length (AList.update k v al) = (if k \<in> fst ` set al then length al else Suc (length al))"
  by (induction al) auto

lemma filter_snd_update:
  "distinct (map fst vs) \<Longrightarrow>
   int (length (filter (\<lambda>p. snd p = c) (AList.update u ch vs))) =
     int (length (filter (\<lambda>p. snd p = c) vs))
       - (case map_of vs u of None \<Rightarrow> 0 | Some old \<Rightarrow> if old = c then 1 else 0)
       + (if ch = c then 1 else 0)"
proof (induction vs)
  case Nil
  show ?case by simp
next
  case (Cons p vs)
  show ?case
  proof (cases "fst p = u")
    case True
    then show ?thesis by (cases p) auto
  next
    case False
    with Cons show ?thesis by (cases p) auto
  qed
qed


subsection \<open>Each step of \<open>add_vote\<close> keeps the invariant\<close>

lemmas session_defs = session_inv_def vote_count_def choosers_def total_votes_def

lemma count_of_listed:
  assumes "session_inv s" "map_of (commands s) c = Some n"
  shows "int (length (filter (\<lambda>v. snd v = c) (voters s))) = n"
proof -
  from assms(1) have "vote_count s c = int (choosers s c)" by (simp add: session_inv_def)
  with assms(2) show ?thesis by (simp add: vote_count_def choosers_def)
qed

lemma count_of_unlisted:
  assumes "session_inv s" "c \<notin> fst ` set (commands s)"
  shows "int (length (filter (\<lambda>v. snd v = c) (voters s))) = 0"
proof -
  from assms(1) have "vote_count s c = int (choosers s c)" by (simp add: session_inv_def)
  moreover have "map_of (commands s) c = None" using assms(2) by (simp add: map_of_eq_None_iff)
  ultimately show ?thesis by (simp add: vote_count_def choosers_def)
qed

lemma session_inv_insert_zero:
  assumes "session_inv s" "c \<notin> fst ` set (commands s)"
  shows "session_inv (s\<lparr>commands := AList.update c 0 (commands s)\<rparr>)"
proof -
  have none: "map_of (commands s) c = None" using assms(2) by (simp add: map_of_eq_None_iff)
  have z: "int (length (filter (\<lambda>v. snd v = c) (voters s))) = 0"
    using assms by (rule count_of_unlisted)
  have z': "filter (\<lambda>v. snd v = c) (voters s) = []" using z by simp
  show ?thesis
    using assms(1) none z'
    by (simp add: session_defs distinct_update update_conv' sum_list_snd_update)
qed

lemma session_inv_new_vote:
  assumes "session_inv s" "map_of (voters s) u = None" "map_of (commands s) c = Some n"
  shows "session_inv (s\<lparr>commands := AList.update c (n + 1) (commands s),
                         voters := AList.update u c (voters s)\<rparr>)"
proof -
  have u: "u \<notin> fst ` set (voters s)" using assms(2) by (simp add: map_of_eq_None_iff)
  have n: "int (length (filter (\<lambda>v. snd v = c) (voters s))) = n"
    using assms(1,3) by (rule count_of_listed)
  have cn: "(case map_of (commands s) c of None \<Rightarrow> 0 | Some k \<Rightarrow> k) = n"
    using assms(3) by simp
  show ?thesis
    using assms(1,2) u n cn
    by (simp add: session_defs distinct_update update_conv' sum_list_snd_update
        filter_snd_update length_alist_update del: map_of_eq_Some_iff)
qed

lemma held_choice_counted:
  assumes "session_inv s" "map_of (voters s) u = Some old"
  shows "1 \<le> vote_count s old"
proof -
  have "(u, old) \<in> set (voters s)" using assms(2) by (rule map_of_SomeD)
  then have "(u, old) \<in> set (filter (\<lambda>v. snd v = old) (voters s))" by simp
  then have "filter (\<lambda>v. snd v = old) (voters s) \<noteq> []" by (metis empty_iff empty_set)
  then have "1 \<le> choosers s old" by (simp add: choosers_def Suc_le_eq)
  with assms(1) show ?thesis by (simp add: session_inv_def)
qed

lemma session_inv_moved_vote:
  assumes "session_inv s" "map_of (voters s) u = Some old" "old \<noteq> c"
    and "map_of (commands s) old = Some m" "map_of (commands s) c = Some n"
  shows "session_inv (s\<lparr>commands := AList.update c (n + 1)
                            (AList.update old (max 0 (m - 1)) (commands s)),
                         voters := AList.update u c (voters s)\<rparr>)"
proof -
  have u: "u \<in> fst ` set (voters s)"
    using assms(2) by (metis map_of_eq_None_iff option.distinct(1))
  have "1 \<le> vote_count s old" using assms(1,2) by (rule held_choice_counted)
  then have m1: "1 \<le> m" using assms(4) by (simp add: vote_count_def)
  have n: "int (length (filter (\<lambda>v. snd v = c) (voters s))) = n"
    using assms(1,5) by (rule count_of_listed)
  have m: "int (length (filter (\<lambda>v. snd v = old) (voters s))) = m"
    using assms(1,4) by (rule count_of_listed)
  have cn: "(case map_of (commands s) c of None \<Rightarrow> 0 | Some k \<Rightarrow> k) = n"
    using assms(5) by simp
  have cm: "(case map_of (commands s) old of None \<Rightarrow> 0 | Some k \<Rightarrow> k) = m"
    using assms(4) by simp
  have d: "distinct (map fst (AList.update old (max 0 (m - 1)) (commands s)))"
    using assms(1) by (simp add: session_inv_def distinct_update)
  show ?thesis
    using assms(1,2,3) u m1 n m cn cm d
    by (auto simp add: session_defs distinct_update update_conv' sum_list_snd_update
        filter_snd_update length_alist_update simp del: map_of_eq_Some_iff)
qed

lemma add_vote_inv: "session_inv s \<Longrightarrow> session_inv (snd (add_vote u c s))"
proof -
  assume inv: "session_inv s"
  define cmd where "cmd = lower c"
  define s1 where "s1 = (if cmd \<notin> fst ` set (commands s)
                  then s\<lparr>commands := AList.update cmd 0 (commands s)\<rparr> else s)"
  have inv1: "session_inv s1"
    using inv by (simp add: s1_def session_inv_insert_zero)
  have "cmd \<in> fst ` set (commands s1)"
    by (simp add: s1_def dom_update)
  then obtain n where n: "map_of (commands s1) cmd = Some n"
    by (metis map_of_eq_None_iff not_None_eq)
  show ?thesis
  proof (cases "active s")
    case False
    then show ?thesis using inv by (simp add: add_vote_def)
  next
    case True
    show ?thesis
    proof (cases "map_of (voters s1) u")
      case None
      then show ?thesis
        using True n inv1 session_inv_new_vote[OF inv1 None n]
        by (simp add: add_vote_def Let_def cmd_def[symmetric] s1_def[symmetric] add_vote_tail_def)
    next
      case (Some old)
      show ?thesis
      proof (cases "old = cmd")
        case True
        then show ?thesis
          using \<open>active s\<close> Some inv1
          by (simp add: add_vote_def Let_def cmd_def[symmetric] s1_def[symmetric])
      next
        case False
        have "1 \<le> vote_count s1 old" using inv1 Some by (rule held_choice_counted)
        then obtain m where m: "map_of (commands s1) old = Some m"
          by (auto simp: vote_count_def split: option.splits)
        show ?thesis
          using \<open>active s\<close> Some False m n session_inv_moved_vote[OF inv1 Some False m n]
          by (simp add: add_vote_def Let_def cmd_def[symmetric] s1_def[symmetric]
              add_vote_tail_def update_conv')
      qed
    qed
  qed
qed


lemma new_session_inv: "session_inv (new_session c0 u0 dur now)"
  by (simp add: session_defs new_session_def)

lemma apply_session_op_inv:
  assumes "session_inv s"
  shows "session_inv (apply_session_op x s)"
proof (cases x)
  case (Vote u c)
  then show ?thesis using add_vote_inv[OF assms, of u c] by simp
next
  case Close
  then show ?thesis using assms by (simp add: session_defs)
qed

lemma run_session_inv: "session_inv s \<Longrightarrow> session_inv (run_session s ops)"
  unfolding run_session_def
  by (induction ops arbitrary: s) (simp_all add: apply_session_op_inv)

lemma session_inv_counts_nonneg:
  assumes "session_inv s" "(c, n) \<in> set (commands s)"
  shows "0 \<le> n"
proof -
  from assms have "map_of (commands s) c = Some n" by (simp add: session_inv_def)
  then have "vote_count s c = n" by (simp add: vote_count_def)
  with assms(1) show ?thesis by (simp add: session_inv_def)
qed

lemma session_inv_card_voters:
  assumes "session_inv s"
  shows "card (fst ` set (voters s)) = length (voters s)"
proof -
  from assms have "distinct (map fst (voters s))" by (simp add: session_inv_def)
  then have "card (set (map fst (voters s))) = length (map fst (voters s))"
    by (rule distinct_card)
  then show ?thesis by simp
qed


subsection \<open>Claims about the vote bookkeeping\<close>

text \<open>
  Claim C2. Take any session as \<open>start_vote\<close> creates it (one vote for the
  initiating command, held by the initiating voter) and let any sequence of
  \<open>add_vote\<close> calls, and the closing of the session by its timer, act on it.
  Then the sum of the per-command counts equals the number of distinct voter
  entries, the voter dictionary has no duplicate key, and no listed count is
  negative.
\<close>

theorem vote_total_equals_voters:
  assumes "s = run_session (new_session initial_command initiator_id dur now) ops"
  shows "total_votes s = int (card (fst ` set (voters s))) \<and>
         distinct (map fst (voters s)) \<and>
         (\<forall>(c, n) \<in> set (commands s). 0 \<le> n)"
proof -
  have inv: "session_inv s"
    unfolding assms by (rule run_session_inv) (rule new_session_inv)
  then have "total_votes s = int (length (voters s))" "distinct (map fst (voters s))"
    by (simp_all add: session_inv_def)
  with inv show ?thesis
    by (auto simp: session_inv_card_voters dest: session_inv_counts_nonneg)
qed

theorem vote_total_equals_voters_witness:
  "total_votes (run_session (new_session ''shutdown'' ''u1'' 20 0)
       [Vote ''u2'' ''forceshutdown'', Vote ''u1'' ''FORCESHUTDOWN'',
        Vote ''u3'' ''shutdown'', Close, Vote ''u4'' ''shutdown''])
     = int (card (fst ` set (voters (run_session (new_session ''shutdown'' ''u1'' 20 0)
       [Vote ''u2'' ''forceshutdown'', Vote ''u1'' ''FORCESHUTDOWN'',
        Vote ''u3'' ''shutdown'', Close, Vote ''u4'' ''shutdown'']))))
   \<and> total_votes (run_session (new_session ''shutdown'' ''u1'' 20 0)
       [Vote ''u2'' ''forceshutdown'', Vote ''u1'' ''FORCESHUTDOWN'',
        Vote ''u3'' ''shutdown'', Close, Vote ''u4'' ''shutdown'']) = 3"
proof -
  have run: "run_session (new_session ''shutdown'' ''u1'' 20 0)
       [Vote ''u2'' ''forceshutdown'', Vote ''u1'' ''FORCESHUTDOWN'',
        Vote ''u3'' ''shutdown'', Close, Vote ''u4'' ''shutdown'']
     = \<lparr>commands = [(''shutdown'', 1), (''forceshutdown'', 2)],
        voters = [(''u1'', ''forceshutdown''), (''u2'', ''forceshutdown''),
                  (''u3'', ''shutdown'')],
        started_at = 0, duration = 20, active = False\<rparr>"
    by code_simp
  show ?thesis
    using vote_total_equals_voters[OF refl, of "''shutdown''" "''u1''" 20 0
       "[Vote ''u2'' ''forceshutdown'', Vote ''u1'' ''FORCESHUTDOWN'',
         Vote ''u3'' ''shutdown'', Close, Vote ''u4'' ''shutdown'']"]
    unfolding run by (simp add: total_votes_def)
qed



section \<open>Admission control: claims\<close>

lemma update_absent_appends:
  "k \<notin> fst ` set al \<Longrightarrow> AList.update k v al = al @ [(k, v)]"
  by (induction al) auto

lemma get_or_zero_update_absent:
  "map_of tbl k = None \<Longrightarrow> get_or_zero (AList.update k 0 tbl) u = get_or_zero tbl u"
  by (simp add: get_or_zero_def update_conv')

text \<open>
  Claim C4, as stated, asks that \<open>check\<close> leaves the limiter as it found it,
  the key set of the per-user table included. It does not: for a user not yet
  in the table, a check that passes the global scope stores that user with the
  default reading.
\<close>

theorem check_inserts_user_counterexample:
  "snd (check 100 ''u1'' ''move'' (new_rate_limiter 3 (1/2))) \<noteq> new_rate_limiter 3 (1/2)
   \<and> fst ` set (user_last (new_rate_limiter 3 (1/2))) = {}
   \<and> fst ` set (user_last (snd (check 100 ''u1'' ''move'' (new_rate_limiter 3 (1/2))))) = {''u1''}"
  by (simp add: check_def new_rate_limiter_def user_last_getitem_def Let_def)

text \<open>
  Claim C4, amended. \<open>check\<close> never changes the cooldown settings, the global
  timestamp or the two per-command tables, and it never changes what the
  per-user table yields for any user (a missing user reads as 0). The per-user
  table itself is unchanged when the global scope denies the check or the user
  is already listed; otherwise the user is appended with the reading 0.
\<close>

theorem check_frame:
  "(let rl' = snd (check now user_id command rl) in
      user_cooldown rl' = user_cooldown rl \<and>
      global_cooldown rl' = global_cooldown rl \<and>
      global_last rl' = global_last rl \<and>
      command_cooldowns rl' = command_cooldowns rl \<and>
      command_intervals rl' = command_intervals rl \<and>
      (\<forall>u. get_or_zero (user_last rl') u = get_or_zero (user_last rl) u) \<and>
      user_last rl' =
        (if now - global_last rl < global_cooldown rl \<or> user_id \<in> fst ` set (user_last rl)
         then user_last rl
         else user_last rl @ [(user_id, 0)]))"
proof (cases "map_of (user_last rl) user_id")
  case None
  then have notin: "user_id \<notin> fst ` set (user_last rl)"
    by (simp add: map_of_eq_None_iff)
  have app: "AList.update user_id 0 (user_last rl) = user_last rl @ [(user_id, 0)]"
    using notin by (rule update_absent_appends)
  have same: "get_or_zero (AList.update user_id 0 (user_last rl)) u = get_or_zero (user_last rl) u"
    for u using None by (rule get_or_zero_update_absent)
  show ?thesis
    using None notin same
    by (simp add: check_def user_last_getitem_def Let_def app[symmetric] split: option.splits)
next
  case (Some t)
  then have isin: "user_id \<in> fst ` set (user_last rl)"
    by (metis map_of_eq_None_iff option.distinct(1))
  show ?thesis
    using Some isin
    by (simp add: check_def user_last_getitem_def Let_def split: option.splits)
qed


theorem check_frame_witness:
  "global_last (snd (check 100 ''u1'' ''move'' (new_rate_limiter 3 (1/2)))) = 0
   \<and> user_last (snd (check 100 ''u1'' ''move'' (new_rate_limiter 3 (1/2)))) = [(''u1'', 0)]
   \<and> user_last (snd (check (1/4) ''u1'' ''move'' (new_rate_limiter 3 (1/2)))) = []"
  using check_frame[of 100 "''u1''" "''move''" "new_rate_limiter 3 (1/2)"]
        check_frame[of "1/4" "''u1''" "''move''" "new_rate_limiter 3 (1/2)"]
  by (simp add: Let_def new_rate_limiter_def)

text \<open>
  Claim C5, as stated, expects a remaining wait of about \<open>G - \<Delta>\<close>. With
  \<open>G = 1/2\<close> and two records at times 1 and 5/4 (so \<open>\<Delta> = 1/4\<close>) the check
  at time 5/4 is denied with the wait \<open>1/2\<close>, which is off by \<open>\<Delta>\<close>.
\<close>

theorem check_after_two_records_counterexample:
  "fst (check (5/4) ''u'' ''move''
          (record_use (5/4) ''u'' ''move'' (record_use 1 ''u'' ''move'' (new_rate_limiter 3 (1/2)))))
     = (False, ServerBusy (1/2))
   \<and> \<bar>remaining_wait (snd (fst (check (5/4) ''u'' ''move''
          (record_use (5/4) ''u'' ''move'' (record_use 1 ''u'' ''move'' (new_rate_limiter 3 (1/2)))))))
        - (1/2 - 1/4)\<bar> = 1/4"
  by (simp add: check_def record_use_def new_rate_limiter_def Let_def)

text \<open>
  Claim C5, amended. With global cooldown \<open>G\<close>, after two \<open>record\<close> calls
  \<open>\<Delta>\<close> apart, \<open>0 \<le> \<Delta> < G\<close>, a check at the time of the second call is
  denied by the global scope for every user and command, and the remaining wait
  is \<open>G\<close> itself: the second \<open>record\<close> has restarted the global cooldown.
\<close>

theorem check_after_two_records:
  assumes "0 \<le> \<Delta>" and "\<Delta> < global_cooldown rl"
  shows "fst (check (t + \<Delta>) user_id command
                (record_use (t + \<Delta>) user2 command2 (record_use t user1 command1 rl)))
           = (False, ServerBusy (global_cooldown rl))"
  using assms by (simp add: check_def record_use_def Let_def)

theorem check_after_two_records_witness:
  "(0::real) \<le> 1/4 \<and> (1/4::real) < global_cooldown (new_rate_limiter 3 (1/2))
   \<and> fst (check (1 + 1/4) ''u'' ''move''
            (record_use (1 + 1/4) ''u'' ''move''
               (record_use 1 ''u'' ''move'' (new_rate_limiter 3 (1/2)))))
       = (False, ServerBusy (1/2))"
proof -
  have d: "(0::real) \<le> 1/4" by simp
  have g: "(1/4::real) < global_cooldown (new_rate_limiter 3 (1/2))"
    by (simp add: new_rate_limiter_def)
  show ?thesis
    using d g check_after_two_records[OF d g, of 1 "''u''" "''move''" "''u''" "''move''" "''u''" "''move''"]
    by (simp add: new_rate_limiter_def)
qed

text \<open>
  The wait \<open>G - \<Delta>\<close> is what a check reports \<open>\<Delta>\<close> after a single \<open>record\<close>.
\<close>

lemma check_after_one_record:
  assumes "\<Delta> < global_cooldown rl"
  shows "fst (check (t + \<Delta>) user_id command (record_use t user1 command1 rl))
           = (False, ServerBusy (global_cooldown rl - \<Delta>))"
  using assms by (simp add: check_def record_use_def Let_def)

section \<open>Execution queue: claims\<close>

lemma put_accepts:
  assumes "\<not> full q"
  shows "put item q = (True, q\<lparr>queue_items := queue_items q @ [item],
                               unfinished_tasks := unfinished_tasks q + 1\<rparr>)"
  using assms by (simp add: put_def put_nowait_def)

lemma put_rejects:
  assumes "full q"
  shows "put item q = (False, q\<lparr>dropped := dropped q + 1\<rparr>)"
  using assms by (simp add: put_def put_nowait_def)

lemma put_all_append:
  "put_all (xs @ ys) q =
     (fst (put_all xs q) @ fst (put_all ys (snd (put_all xs q))),
      snd (put_all ys (snd (put_all xs q))))"
  by (induction xs arbitrary: q) (simp_all add: split_beta Let_def)

lemma put_all_fits:
  assumes "int (length (queue_items q)) + int (length xs) \<le> maxsize q"
  shows "put_all xs q =
           (replicate (length xs) True,
            q\<lparr>queue_items := queue_items q @ xs,
               unfinished_tasks := unfinished_tasks q + int (length xs)\<rparr>)"
  using assms
proof (induction xs arbitrary: q)
  case Nil
  show ?case by simp
next
  case (Cons x xs)
  have nf: "\<not> full q" using Cons.prems by (simp add: full_def)
  let ?q1 = "q\<lparr>queue_items := queue_items q @ [x],
                unfinished_tasks := unfinished_tasks q + 1\<rparr>"
  have "int (length (queue_items ?q1)) + int (length xs) \<le> maxsize ?q1"
    using Cons.prems by simp
  from Cons.IH[OF this] show ?case
    by (simp add: put_accepts[OF nf])
qed

lemma get_n_takes:
  "fst (get_n n q) = take n (queue_items q) \<and>
   queue_items (snd (get_n n q)) = drop n (queue_items q)"
proof (induction n arbitrary: q)
  case 0
  show ?case by simp
next
  case (Suc n)
  show ?case
  proof (cases "queue_items q")
    case Nil
    then show ?thesis by (simp add: get_def)
  next
    case (Cons x rest)
    with Suc[of "q\<lparr>queue_items := rest\<rparr>"] show ?thesis
      by (simp add: get_def split_beta)
  qed
qed

text \<open>
  Claim C7, as stated for every capacity, fails at capacity 0: the underlying
  queue is then unbounded, the single submitted item is accepted and nothing is
  counted as dropped.
\<close>

theorem put_capacity_zero_counterexample:
  "put_all [''a''] (new_queue 0) =
     ([True], \<lparr>maxsize = 0, queue_items = [''a''], unfinished_tasks = 1, dropped = 0\<rparr>)"
  by (simp add: new_queue_def put_def put_nowait_def full_def)

text \<open>
  Claim C7, amended. For a fresh queue of capacity \<open>C \<ge> 1\<close>, submitting
  \<open>C + 1\<close> items yields \<open>True\<close> for the first \<open>C\<close> calls of \<open>put\<close> and \<open>False\<close>
  for the last one, the dropped counter goes from 0 to 1, and \<open>C\<close> calls of
  \<open>get\<close> hand out the first \<open>C\<close> items in submission order, after which the
  queue is empty.
\<close>

theorem put_overflow_drops_last:
  fixes xs :: "'a list"
  assumes "1 \<le> C" and "int (length xs) = C + 1"
  shows "dropped (new_queue C :: 'a ExecutionQueue) = 0 \<and>
         fst (put_all xs (new_queue C)) = replicate (nat C) True @ [False] \<and>
         dropped (snd (put_all xs (new_queue C))) = 1 \<and>
         fst (get_n (nat C) (snd (put_all xs (new_queue C)))) = take (nat C) xs \<and>
         get (snd (get_n (nat C) (snd (put_all xs (new_queue C))))) = None"
proof -
  define ys where "ys = take (nat C) xs"
  define y where "y = last xs"
  have xs: "xs = ys @ [y]" and len: "length ys = nat C"
    using assms unfolding ys_def y_def
    by (cases xs rule: rev_cases; simp)+
  let ?q0 = "new_queue C :: 'a ExecutionQueue"
  let ?q1 = "?q0\<lparr>queue_items := ys, unfinished_tasks := C\<rparr>"
  have fits: "int (length (queue_items ?q0)) + int (length ys) \<le> maxsize ?q0"
    using assms(1) len by (simp add: new_queue_def)
  have p1: "put_all ys ?q0 = (replicate (nat C) True, ?q1)"
    using put_all_fits[OF fits] assms(1) len by (simp add: new_queue_def)
  have f1: "full ?q1" using assms(1) len by (simp add: full_def new_queue_def)
  have p2: "put_all xs ?q0 = (replicate (nat C) True @ [False], ?q1\<lparr>dropped := 1\<rparr>)"
    unfolding xs put_all_append p1 using put_rejects[OF f1]
    by (simp add: new_queue_def)
  have g: "fst (get_n (nat C) (?q1\<lparr>dropped := 1\<rparr>)) = ys"
          "queue_items (snd (get_n (nat C) (?q1\<lparr>dropped := 1\<rparr>))) = []"
    using get_n_takes[of "nat C" "?q1\<lparr>dropped := 1\<rparr>"] len by simp_all
  show ?thesis
    unfolding p2 using g by (simp add: new_queue_def get_def ys_def)
qed

theorem put_overflow_drops_last_witness:
  "(1::int) \<le> 2 \<and> int (length [''a'', ''b'', ''c'']) = 2 + 1
   \<and> fst (put_all [''a'', ''b'', ''c''] (new_queue 2)) = [True, True, False]
   \<and> dropped (snd (put_all [''a'', ''b'', ''c''] (new_queue 2))) = 1
   \<and> fst (get_n 2 (snd (put_all [''a'', ''b'', ''c''] (new_queue 2)))) = [''a'', ''b'']"
proof -
  have c: "(1::int) \<le> 2" by simp
  have l: "int (length [''a'', ''b'', ''c'']) = 2 + 1" by simp
  show ?thesis
    using c l put_overflow_drops_last[OF c l]
    by (simp add: numeral_2_eq_2 del: put_all.simps get_n.simps)
qed

section \<open>Message intake: claims\<close>






subsection \<open>A flood of fresh ids\<close>












text \<open>
  Whatever the enumeration of the set, cutting \<open>seen_ids\<close> down forgets ids:
  at most 5000 of the more than 10000 are kept.
\<close>

lemma prune_seen_forgets:
  assumes "10000 < card seen"
  shows "card (prune_seen order seen) \<le> 5000"
proof -
  have "card (set (last_n 5000 (order seen))) \<le> length (last_n 5000 (order seen))"
    by (rule card_length)
  also have "\<dots> \<le> 5000" by (simp add: last_n_def)
  finally show ?thesis using assms by (simp add: prune_seen_def)
qed




section \<open>The vote manager: claims\<close>







section \<open>Command execution: claims\<close>

subsection \<open>The calls a handler issues\<close>

lemma calls_returns: "fst (returns x) = []"
  by (simp add: returns_def)

lemma calls_raises: "fst (raises e) = []"
  by (simp add: raises_def)

lemma calls_await:
  "set (fst (await vm a rest)) \<subseteq> insert a (\<Union>b. set (fst (rest b)))"
  by (auto simp: await_def split: sum.splits prod.splits) (metis fst_conv)

lemma calls_sleep: "fst (sleep a rest) = a # fst rest"
  by (simp add: sleep_def split_beta)

lemma limits_await:
  assumes "within_limits cfg a" and "\<And>b. \<forall>x \<in> set (fst (rest b)). within_limits cfg x"
  shows "\<forall>x \<in> set (fst (await vm a rest)). within_limits cfg x"
  using assms calls_await[of vm a rest] by blast

lemma limits_await_returns:
  assumes "within_limits cfg a"
  shows "\<forall>x \<in> set (fst (await vm a (\<lambda>b. returns (f b)))). within_limits cfg x"
  using assms by (intro limits_await) (simp_all add: calls_returns)

lemma limits_move_clamped:
  assumes "0 \<le> mouse_max_delta cfg"
  shows "\<forall>x \<in> set (fst (move_clamped vm cfg dx dy)). within_limits cfg x"
  unfolding move_clamped_def Let_def
  using assms by (intro limits_await_returns) simp

lemma limits_move:
  assumes "0 \<le> mouse_max_delta cfg"
  shows "\<forall>x \<in> set (fst (move_handler lib vm cfg as)). within_limits cfg x"
  using limits_move_clamped[OF assms]
  by (simp add: move_handler_def calls_returns calls_raises Let_def
      split: list.splits option.splits sum.splits prod.splits)

lemma limits_drag:
  assumes "0 \<le> mouse_max_delta cfg"
  shows "\<forall>x \<in> set (fst (drag_handler lib vm cfg as)). within_limits cfg x"
proof (cases "two_ints lib as")
  case (Inl e)
  then show ?thesis by (simp add: drag_handler_def calls_returns calls_raises)
next
  case (Inr p)
  obtain dx dy where p: "p = (dx, dy)" by (cases p)
  show ?thesis
    unfolding drag_handler_def Inr p Let_def sum.case prod.case
    using assms by (intro limits_await_returns) simp
qed

lemma limits_scroll:
  "\<forall>x \<in> set (fst (scroll_handler lib vm as)). within_limits cfg x"
proof (cases "case arg_at as 0 of Inl e \<Rightarrow> Inl e | Inr a0 \<Rightarrow> int_float lib a0")
  case (Inl e)
  then show ?thesis by (simp add: scroll_handler_def calls_returns calls_raises)
next
  case (Inr d)
  show ?thesis
    unfolding scroll_handler_def Inr Let_def sum.case
    by (intro limits_await_returns) simp
qed


lemmas run_defs = await_def returns_def raises_def sleep_def

lemma limits_startvm: "\<forall>x \<in> set (fst (startvm_handler vm)). within_limits cfg x"
  by (auto simp: startvm_handler_def run_defs split: sum.splits)

lemma limits_fullscreen: "\<forall>x \<in> set (fst (fullscreen_handler vm)). within_limits cfg x"
  by (auto simp: fullscreen_handler_def run_defs split: sum.splits)

lemma limits_abs: "\<forall>x \<in> set (fst (abs_handler lib vm c as)). within_limits cfg x"
  by (auto simp: abs_handler_def run_defs Let_def split: sum.splits prod.splits)

lemma limits_click: "\<forall>x \<in> set (fst (click_handler vm as)). within_limits cfg x"
  by (auto simp: click_handler_def run_defs Let_def split: sum.splits)

lemma limits_rclick: "\<forall>x \<in> set (fst (rclick_handler vm)). within_limits cfg x"
  by (auto simp: rclick_handler_def run_defs split: sum.splits)

lemma limits_type: "\<forall>x \<in> set (fst (type_handler vm c as)). within_limits cfg x"
  by (auto simp: type_handler_def run_defs Let_def split: sum.splits list.splits)

lemma limits_send: "\<forall>x \<in> set (fst (send_handler vm c as)). within_limits cfg x"
  by (auto simp: send_handler_def run_defs Let_def split: sum.splits list.splits)

lemma limits_key: "\<forall>x \<in> set (fst (key_handler lib vm as)). within_limits cfg x"
  by (auto simp: key_handler_def run_defs Let_def split: sum.splits if_splits)

lemma limits_combo: "\<forall>x \<in> set (fst (combo_handler vm as)). within_limits cfg x"
  by (auto simp: combo_handler_def run_defs Let_def split: sum.splits if_splits)

lemma limits_keydown: "\<forall>x \<in> set (fst (keydown_handler vm as)). within_limits cfg x"
  by (auto simp: keydown_handler_def run_defs Let_def split: sum.splits)

lemma limits_keyup: "\<forall>x \<in> set (fst (keyup_handler vm as)). within_limits cfg x"
  by (auto simp: keyup_handler_def run_defs Let_def split: sum.splits)

lemma limits_enter: "\<forall>x \<in> set (fst (enter_handler vm)). within_limits cfg x"
  by (auto simp: enter_handler_def run_defs split: sum.splits)

lemma limits_wait: "\<forall>x \<in> set (fst (wait_handler lib c as)). within_limits cfg x"
  by (auto simp: wait_handler_def run_defs Let_def split: sum.splits if_splits)

lemma limits_reset: "\<forall>x \<in> set (fst (reset_handler vm)). within_limits cfg x"
  by (auto simp: reset_handler_def run_defs split: sum.splits)

lemma limits_revert: "\<forall>x \<in> set (fst (revert_handler vm c)). within_limits cfg x"
  by (auto simp: revert_handler_def run_defs split: sum.splits if_splits)

lemma limits_screenshot: "\<forall>x \<in> set (fst (screenshot_handler vm)). within_limits cfg x"
  by (auto simp: screenshot_handler_def split: sum.splits)

lemma limits_returns: "\<forall>x \<in> set (fst (returns r)). within_limits cfg x"
  by (simp add: returns_def)

lemma limits_if:
  assumes "Q \<Longrightarrow> \<forall>x \<in> set (fst a). within_limits cfg x"
    and "\<not> Q \<Longrightarrow> \<forall>x \<in> set (fst b). within_limits cfg x"
  shows "\<forall>x \<in> set (fst (if Q then a else b)). within_limits cfg x"
  using assms by simp

lemma limits_dispatch:
  assumes "0 \<le> mouse_max_delta cfg"
  shows "\<forall>x \<in> set (fst (dispatch lib vm cfg cmd)). within_limits cfg x"
  unfolding dispatch_def Let_def
  by (intro limits_if limits_returns limits_startvm limits_fullscreen limits_move[OF assms]
      limits_abs limits_drag[OF assms] limits_click limits_rclick limits_scroll limits_type
      limits_send limits_key limits_combo limits_keydown limits_keyup limits_enter limits_wait
      limits_reset limits_revert limits_screenshot)

lemma calls_execute: "fst (execute lib vm cfg cmd user) = fst (dispatch lib vm cfg cmd)"
  by (simp add: execute_def split: prod.splits sum.splits)

text \<open>
  Claim C10. With a maximum delta that is not negative, every call that
  \<open>execute\<close> issues to the actuator, for whatever command and argument list,
  is within the limits: a relative move or a drag has both deltas between
  \<open>-mouse_max_delta\<close> and \<open>mouse_max_delta\<close>, and a scroll has its delta between
  -10 and 10.
\<close>

theorem executor_mouse_within_limits:
  assumes "0 \<le> mouse_max_delta cfg"
  shows "\<forall>a \<in> set (fst (execute lib vm cfg cmd user_display)). within_limits cfg a"
  unfolding calls_execute using assms by (rule limits_dispatch)

theorem executor_mouse_within_limits_witness:
  "0 \<le> mouse_max_delta default_config
   \<and> fst (execute sample_lib willing_vm default_config
            \<lparr>name = ''move'', args = [''500'', ''-7''], raw = ''!move 500 -7'',
               tier = CLASSIC, required_permission = VIEWER\<rparr> ''viewer'')
       = [Mouse_move 300 (-7)]
   \<and> within_limits default_config (Mouse_move 300 (-7))"
proof -
  let ?cmd = "\<lparr>name = ''move'', args = [''500'', ''-7''], raw = ''!move 500 -7'',
               tier = CLASSIC, required_permission = VIEWER\<rparr>"
  have c: "0 \<le> mouse_max_delta default_config" by (simp add: default_config_def)
  have r: "fst (execute sample_lib willing_vm default_config ?cmd ''viewer'')
             = [Mouse_move 300 (-7)]" by code_simp
  from executor_mouse_within_limits[OF c, of sample_lib willing_vm ?cmd "''viewer''"]
  have "within_limits default_config (Mouse_move 300 (-7))" unfolding r by simp
  with c r show ?thesis by blast
qed

subsection \<open>Exceptions of a handler\<close>






section \<open>The orchestrator: claims\<close>












text \<open>
  The consumer runs \<open>startvm\<close> without asking whether the VM is running, and
  asks before it runs \<open>reset\<close>.
\<close>

lemma consumer_round_examples:
  "fst (execution_loop sample_lib [willing_vm]
          (snd (process_message simple_split 100 (owner_message ''!startvm'') default_bot)))
     = [Actuator (Start_vm True),
        Announce_for ''owner-id'' [Emoji ''check mark'', L '' VM started!''],
        Overlay_clear_active_command]"
  "fst (execution_loop sample_lib [willing_vm]
          (snd (process_message simple_split 100 (owner_message ''!reset'') default_bot)))
     = [Actuator Is_running, Actuator Reset_vm,
        Announce_for ''owner-id'' [Emoji ''arrows'', L '' VM reset!''],
        Overlay_clear_active_command]"
  by code_simp+

end
